theory Spec2Isabelle
  imports Main
begin

section \<open>TermTunes: a shallow embedding of \<^verbatim>\<open>src/termtunes/cli.py\<close>\<close>

text \<open>
  The program searches a music catalog, lists the hits, lets the user pick one and hands
  its URL to \<^verbatim>\<open>mpv\<close>. The functions of \<^verbatim>\<open>cli.py\<close> are embedded below under their own
  names; \<^verbatim>\<open>main_entry\<close>, which only hands the status of \<^verbatim>\<open>main\<close> to \<^verbatim>\<open>SystemExit\<close>, is
  left out, and so is \<^verbatim>\<open>argparse\<close>: \<open>main\<close> starts from the parsed arguments.
  What the Python does beyond returning a value is made explicit:
  \<^item> standard input is a possibly infinite sequence of lines (\<open>instream\<close>); standard
    output and every contact with the outside (the catalog, \<^verbatim>\<open>shutil.which\<close>,
    \<^verbatim>\<open>subprocess.run\<close>) is an \<open>event\<close> appended to the trace of the \<open>world\<close>;
  \<^item> the outside itself (what the catalog answers, whether \<^verbatim>\<open>mpv\<close> is installed, how the
    player process ends) is a record \<open>env\<close> of parameters, never fixed by the model;
  \<^item> an exception is a value \<open>exn\<close>; a function that can raise returns \<open>exn + 'a\<close>;
  \<^item> the \<^verbatim>\<open>while True\<close> loop of \<^verbatim>\<open>choose_song\<close> may run forever on an endless input,
    so it is a partial function into \<open>option\<close>, where \<open>None\<close> means \<open>does not return\<close>.

  A Python \<^verbatim>\<open>str\<close> is the list of the bytes of its UTF-8 encoding. The program joins
  strings, tests them for emptiness and hands them to two builtins, \<^verbatim>\<open>str.strip\<close> and
  \<^verbatim>\<open>int\<close>. What these two answer depends on the Unicode tables of the interpreter, so
  they belong to the outside as well: they are the parameters \<open>py_strip\<close> and \<open>py_int\<close>
  of \<open>env\<close>, and every statement below holds whatever white space \<^verbatim>\<open>str.strip\<close> removes
  and whatever digits \<^verbatim>\<open>int\<close> reads. Signals are outside the model, except where the
  source names one: the \<^verbatim>\<open>KeyboardInterrupt\<close> that \<^verbatim>\<open>play_with_mpv\<close> handles.
\<close>

subsection \<open>Decimal rendering\<close>

text \<open>Decimal rendering of an integer, as an f-string does for \<^verbatim>\<open>{i+1}\<close>.\<close>

definition digit_char :: "nat \<Rightarrow> char" where
  "digit_char d = ''0123456789'' ! d"

fun str_nat :: "nat \<Rightarrow> string" where
  "str_nat n = (if n < 10 then [digit_char n] else str_nat (n div 10) @ [digit_char (n mod 10)])"

declare str_nat.simps [simp del]

definition str_int :: "int \<Rightarrow> string" where
  "str_int k = (if k < 0 then CHR ''-'' # str_nat (nat (- k)) else str_nat (nat k))"

subsection \<open>Track descriptors and the Deterministic Provider\<close>

text \<open>A song is the dict \<^verbatim>\<open>{"title": .., "artist": .., "url": ..}\<close>.\<close>

record song =
  title :: string
  artist :: string
  url :: string

text \<open>\<^verbatim>\<open>search_with_mock(query, limit)\<close>: the comprehension over \<^verbatim>\<open>range(limit)\<close>,
  which is empty for a limit below 1.\<close>

definition search_with_mock :: "string \<Rightarrow> int \<Rightarrow> song list" where
  "search_with_mock q lim =
     map (\<lambda>i. \<lparr> title = q @ '' (Mock '' @ str_int (int i + 1) @ '')'',
                artist = ''Mock Artist '' @ str_int (int i + 1),
                url = ''https://www.youtube.com/watch?v=mock'' @ str_int (int i + 1) \<rparr>)
         [0 ..< nat lim]"

subsection \<open>The world: standard input, and the trace of what the program did\<close>

text \<open>Standard input: the lines still to be read, without their newline. \<open>EOF\<close> is the
  end of input; an input that never ends is a value of this type too.\<close>

codatatype instream = EOF | Line string instream

datatype event =
    Print string            \<comment> \<open>\<^verbatim>\<open>print(s)\<close>\<close>
  | Prompt string           \<comment> \<open>the prompt that \<^verbatim>\<open>input(prompt)\<close> writes\<close>
  | YTMusicNew              \<comment> \<open>\<^verbatim>\<open>YTMusic()\<close>\<close>
  | YTMusicSearch string    \<comment> \<open>\<^verbatim>\<open>ytm.search(query, filter="songs")\<close>\<close>
  | Which string            \<comment> \<open>\<^verbatim>\<open>shutil.which(name)\<close>\<close>
  | Run "string list"       \<comment> \<open>\<^verbatim>\<open>subprocess.run(argv, check=True)\<close>\<close>

record world =
  stdin :: instream
  out :: "event list"

definition emit :: "event \<Rightarrow> world \<Rightarrow> world" where
  "emit e w = w\<lparr>out := out w @ [e]\<rparr>"

definition print :: "string \<Rightarrow> world \<Rightarrow> world" where
  "print s w = emit (Print s) w"

text \<open>\<^verbatim>\<open>input(prompt)\<close>: writes the prompt, then returns the next line, or raises
  \<^verbatim>\<open>EOFError\<close> (here \<open>None\<close>) at the end of input.\<close>

definition input :: "string \<Rightarrow> world \<Rightarrow> string option \<times> world" where
  "input p w =
     (case stdin w of
        EOF \<Rightarrow> (None, emit (Prompt p) w)
      | Line l rest \<Rightarrow> (Some l, (emit (Prompt p) w)\<lparr>stdin := rest\<rparr>))"

subsection \<open>Exceptions and the outside\<close>

text \<open>An exception of class \<^verbatim>\<open>Exception\<close>, with its \<^verbatim>\<open>str()\<close>. \<open>External m\<close> is any exception
  raised inside \<^verbatim>\<open>ytmusicapi\<close> or \<^verbatim>\<open>subprocess\<close> whose \<^verbatim>\<open>str()\<close> is \<open>m\<close>; \<open>KeyError k\<close> carries
  the \<^verbatim>\<open>repr\<close> of the missing key. \<^verbatim>\<open>ValueError\<close> of \<^verbatim>\<open>int\<close> and \<^verbatim>\<open>EOFError\<close> of \<^verbatim>\<open>input\<close> are
  the \<open>None\<close> of \<open>py_int\<close> and \<open>input\<close>.\<close>

datatype exn =
    RuntimeError string | IndexError | TypeError string | KeyError string | External string

fun str_exn :: "exn \<Rightarrow> string" where
  "str_exn (RuntimeError m) = m"
| "str_exn IndexError = ''list index out of range''"
| "str_exn (TypeError m) = m"
| "str_exn (KeyError k) = k"
| "str_exn (External m) = m"

text \<open>
  An item of the catalog's answer is a dict, given by what the source reads of it:
  \<^verbatim>\<open>item.get("title")\<close>, \<^verbatim>\<open>item.get("artists")\<close> and \<^verbatim>\<open>item.get("videoId")\<close>. Title and
  identifier are strings, \<open>None\<close> when the key is missing or holds \<^verbatim>\<open>None\<close>.

  The value under \<^verbatim>\<open>"artists"\<close> is any value that decoded JSON can hold, since the source
  tests it and subscripts it before it knows that it is a list: nothing (\<open>Missing\<close>), a
  list of entries, a string, a whole number, a boolean, or a dict, given by its keys. An
  entry of the list is a dict, given by its \<^verbatim>\<open>.get("name")\<close>, or something that is not a
  dict.
\<close>

datatype artist_entry = ArtistDict "string option" | NotADict

datatype artists_value =
    Missing
  | Listed "artist_entry list"
  | AString string
  | ANumber int
  | ABool bool
  | ADict "string list"

record item =
  item_title :: "string option"
  item_artists :: artists_value
  item_videoId :: "string option"

text \<open>The class \<^verbatim>\<open>YTMusic\<close>: what the constructor raises, if anything, and what
  \<^verbatim>\<open>search(query, filter="songs")\<close> raises or returns (\<open>None\<close> for Python's \<^verbatim>\<open>None\<close>).\<close>

record ytmusic =
  construct :: "exn option"
  search :: "string \<Rightarrow> exn + item list option"

text \<open>How \<^verbatim>\<open>subprocess.run(.., check=True)\<close> ends: normally (exit status 0), with
  \<^verbatim>\<open>CalledProcessError\<close> (the exit status), interrupted by the user, or with any other
  exception, such as \<^verbatim>\<open>OSError\<close>.\<close>

datatype run_outcome = Completed | CalledProcessError int | KeyboardInterrupt | Raised exn

record env =
  YTMusic :: "ytmusic option"             \<comment> \<open>\<open>None\<close> when the import of \<^verbatim>\<open>ytmusicapi\<close> failed\<close>
  which :: "string \<Rightarrow> string option"       \<comment> \<open>\<^verbatim>\<open>shutil.which\<close>\<close>
  run :: "string list \<Rightarrow> run_outcome"      \<comment> \<open>\<^verbatim>\<open>subprocess.run\<close>\<close>
  py_strip :: "string \<Rightarrow> string"          \<comment> \<open>\<^verbatim>\<open>str.strip\<close>\<close>
  py_int :: "string \<Rightarrow> int option"        \<comment> \<open>\<^verbatim>\<open>int\<close> of a string, \<open>None\<close> for \<^verbatim>\<open>ValueError\<close>\<close>

subsection \<open>The Live Provider\<close>

text \<open>Python's slice \<^verbatim>\<open>xs[:n]\<close>; a negative \<open>n\<close> counts from the end.\<close>

definition slice_to :: "int \<Rightarrow> 'a list \<Rightarrow> 'a list" where
  "slice_to n xs = (if 0 \<le> n then take (nat n) xs else take (length xs - nat (- n)) xs)"

text \<open>\<^verbatim>\<open>x or default\<close> on an optional string: \<^verbatim>\<open>None\<close> and \<^verbatim>\<open>""\<close> are falsy.\<close>

definition truthy :: "string option \<Rightarrow> bool" where
  "truthy x = (case x of None \<Rightarrow> False | Some s \<Rightarrow> s \<noteq> [])"

definition or_else :: "string option \<Rightarrow> string \<Rightarrow> string" where
  "or_else x d = (if truthy x then the x else d)"

text \<open>The conditional expression that picks the artist:
  \<^verbatim>\<open>artists[0].get("name") if artists and isinstance(artists[0], dict)
     and artists[0].get("name") else "Unknown Artist"\<close>
  where \<^verbatim>\<open>artists = item.get("artists") or []\<close>. \<^verbatim>\<open>None\<close>, the empty list, string and dict,
  0 and \<^verbatim>\<open>False\<close> are falsy and give the placeholder. When \<^verbatim>\<open>artists\<close> is truthy,
  \<^verbatim>\<open>artists[0]\<close> is evaluated: it is the first entry of a list and the first character
  of a string (a string, so not a dict); a number or a boolean cannot be subscripted
  (\<^verbatim>\<open>TypeError\<close>), and a dict decoded from JSON has string keys only, so that the key 0
  is missing (\<^verbatim>\<open>KeyError\<close>, whose text is the \<^verbatim>\<open>repr\<close> of the key).\<close>

fun artist_of :: "artists_value \<Rightarrow> exn + string" where
  "artist_of (Listed (ArtistDict n # _)) = Inr (if truthy n then the n else ''Unknown Artist'')"
| "artist_of (ANumber n) =
     (if n = 0 then Inr ''Unknown Artist''
      else Inl (TypeError (CHR 0x27 # ''int'' @ CHR 0x27 # '' object is not subscriptable'')))"
| "artist_of (ABool b) =
     (if \<not> b then Inr ''Unknown Artist''
      else Inl (TypeError (CHR 0x27 # ''bool'' @ CHR 0x27 # '' object is not subscriptable'')))"
| "artist_of (ADict ks) = (if ks = [] then Inr ''Unknown Artist'' else Inl (KeyError ''0''))"
| "artist_of _ = Inr ''Unknown Artist''"

text \<open>The body of the \<^verbatim>\<open>for\<close> loop, \<open>songs\<close> being the list built so far. An exception
  ends the loop and the function.\<close>

fun collect :: "item list \<Rightarrow> song list \<Rightarrow> exn + song list" where
  "collect [] songs = Inr songs"
| "collect (it # its) songs =
     (let t = or_else (item_title it) ''Unknown Title'' in
      case artist_of (item_artists it) of
        Inl e \<Rightarrow> Inl e
      | Inr a \<Rightarrow>
          let video_id = item_videoId it
          in if \<not> truthy video_id then collect its songs
             else collect its
                    (songs @ [\<lparr> title = t, artist = a,
                                url = ''https://www.youtube.com/watch?v='' @ the video_id \<rparr>]))"

definition search_with_ytmusic :: "env \<Rightarrow> string \<Rightarrow> int \<Rightarrow> world \<Rightarrow> (exn + song list) \<times> world" where
  "search_with_ytmusic env q lim w =
     (case YTMusic env of
        None \<Rightarrow> (Inl (RuntimeError ''ytmusicapi not installed. Run: pip install ytmusicapi''), w)
      | Some y \<Rightarrow>
          let w1 = emit YTMusicNew w in
          (case construct y of
             Some e \<Rightarrow> (Inl e, w1)
           | None \<Rightarrow>
               let w2 = emit (YTMusicSearch q) w1 in
               (case search y q of
                  Inl e \<Rightarrow> (Inl e, w2)
                | Inr r \<Rightarrow>
                    let results = (case r of None \<Rightarrow> [] | Some xs \<Rightarrow> xs)
                    in (collect (slice_to lim results) [], w2))))"

subsection \<open>The Selector\<close>

text \<open>\<^verbatim>\<open>for i, s in enumerate(songs, start=1): print(f"{i}. {s['title']} - {s['artist']}")\<close>\<close>

fun print_songs :: "nat \<Rightarrow> song list \<Rightarrow> world \<Rightarrow> world" where
  "print_songs i [] w = w"
| "print_songs i (s # ss) w =
     print_songs (Suc i) ss (print (str_nat i @ ''. '' @ title s @ '' - '' @ artist s) w)"

text \<open>The \<^verbatim>\<open>while True\<close> loop. \<open>None\<close>: the loop never returns.\<close>

partial_function (option) choose_loop :: "env \<Rightarrow> song list \<Rightarrow> world \<Rightarrow> (int option \<times> world) option" where
  "choose_loop env songs w =
     (case input ''Enter number (or blank to cancel): '' w of
        (None, w1) \<Rightarrow> Some (None, w1)
      | (Some l, w1) \<Rightarrow>
          let choice = py_strip env l in
          if choice = [] then Some (None, w1)
          else (case py_int env choice of
                  None \<Rightarrow> choose_loop env songs (print ''Please enter a valid number.'' w1)
                | Some v \<Rightarrow>
                    let idx = v - 1 in
                    if 0 \<le> idx \<and> idx < int (length songs) then Some (Some idx, w1)
                    else choose_loop env songs (print ''Invalid choice. Try again.'' w1)))"

definition choose_song :: "env \<Rightarrow> song list \<Rightarrow> bool \<Rightarrow> world \<Rightarrow> (int option \<times> world) option" where
  "choose_song env songs auto w =
     (if songs = [] then Some (None, w)
      else if auto then Some (Some 0, w)
      else choose_loop env songs
             (print_songs 1 songs (print (CHR 0x0A # ''Select a song:'') w)))"

subsection \<open>The Player Invoker\<close>

definition play_with_mpv :: "env \<Rightarrow> string \<Rightarrow> world \<Rightarrow> (exn + unit) \<times> world" where
  "play_with_mpv env u w =
     (let w1 = emit (Which ''mpv'') w in
      if \<not> truthy (which env ''mpv'')
      then (Inl (RuntimeError ''mpv not found. Please install it to play songs.''), w1)
      else
        let w2 = emit (Run [''mpv'', ''--no-video'', u]) w1 in
        (case run env [''mpv'', ''--no-video'', u] of
           Completed \<Rightarrow> (Inr (), w2)
         | CalledProcessError rc \<Rightarrow> (Inr (), print (''mpv exited with error code '' @ str_int rc) w2)
         | KeyboardInterrupt \<Rightarrow> (Inr (), print (CHR 0x0A # ''Stopped by user.'') w2)
         | Raised e \<Rightarrow> (Inl e, w2)))"

subsection \<open>The Session Controller\<close>

text \<open>Python's \<^verbatim>\<open>xs[i]\<close>: a negative index counts from the end, an index out of range
  raises \<^verbatim>\<open>IndexError\<close>.\<close>

definition index :: "'a list \<Rightarrow> int \<Rightarrow> exn + 'a" where
  "index xs i =
     (if 0 \<le> i \<and> i < int (length xs) then Inr (xs ! nat i)
      else if i < 0 \<and> - int (length xs) \<le> i then Inr (xs ! nat (int (length xs) + i))
      else Inl IndexError)"

text \<open>Line 120: \<^verbatim>\<open>search_with_mock(query, limit) if use_mock else search_with_ytmusic(query, limit)\<close>\<close>

definition run_search :: "env \<Rightarrow> bool \<Rightarrow> string \<Rightarrow> int \<Rightarrow> world \<Rightarrow> (exn + song list) \<times> world" where
  "run_search env use_mock q lim w =
     (if use_mock then (Inr (search_with_mock q lim), w) else search_with_ytmusic env q lim w)"

text \<open>The two lines that report the selection; the emoji are their UTF-8 bytes, and
  the second line ends with a newline of its own.\<close>

definition selected_line :: "song \<Rightarrow> string" where
  "selected_line s =
     [CHR 0x0A, CHR 0xF0, CHR 0x9F, CHR 0x8E, CHR 0xB5] @ '' Selected: '' @ title s @ '' - '' @ artist s"

definition url_line :: "song \<Rightarrow> string" where
  "url_line s = [CHR 0xF0, CHR 0x9F, CHR 0x94, CHR 0x97] @ '' URL: '' @ url s @ [CHR 0x0A]"

definition report_selected :: "song \<Rightarrow> world \<Rightarrow> world" where
  "report_selected s w = print (url_line s) (print (selected_line s) w)"

text \<open>\<^verbatim>\<open>search_and_play\<close>. The outer \<open>option\<close> is \<open>None\<close> when the selection loop never
  returns; \<open>Inl e\<close> is an exception that leaves the function, \<open>Inr None\<close> is Python's
  \<^verbatim>\<open>return None\<close>.\<close>

definition search_and_play ::
  "env \<Rightarrow> string \<Rightarrow> int \<Rightarrow> bool \<Rightarrow> bool \<Rightarrow> bool \<Rightarrow> world \<Rightarrow> ((exn + song option) \<times> world) option" where
  "search_and_play env q lim use_mock auto no_play w =
     (if py_strip env q = [] then Some (Inr None, print ''Empty query.'' w)
      else
        (case run_search env use_mock q lim w of
           (Inl e, w1) \<Rightarrow> Some (Inr None, print (''Error while searching: '' @ str_exn e) w1)
         | (Inr songs, w1) \<Rightarrow>
             if songs = [] then Some (Inr None, print ''No results found.'' w1)
             else
               (case choose_song env songs auto
                       (print_songs 1 songs (print (CHR 0x0A # ''Top Results:'') w1)) of
                  None \<Rightarrow> None
                | Some (None, w2) \<Rightarrow> Some (Inr None, print ''No song selected.'' w2)
                | Some (Some idx, w2) \<Rightarrow>
                    (case index songs idx of
                       Inl e \<Rightarrow> Some (Inl e, w2)
                     | Inr selected \<Rightarrow>
                         let w3 = report_selected selected w2 in
                         if no_play
                         then Some (Inr (Some selected), print ''--no-play enabled, not launching mpv.'' w3)
                         else
                           (case play_with_mpv env (url selected) w3 of
                              (Inl e, w4) \<Rightarrow>
                                Some (Inr (Some selected), print (''Failed to play: '' @ str_exn e) w4)
                            | (Inr _, w4) \<Rightarrow> Some (Inr (Some selected), w4))))))"

subsection \<open>The Command Surface\<close>

text \<open>The namespace that \<^verbatim>\<open>parser.parse_args\<close> returns. \<open>arg_query\<close> is \<open>None\<close> when the
  positional argument is absent; \<open>arg_limit\<close> is one of 1, 3, 5, 7, 10.\<close>

record args =
  arg_query :: "string option"
  arg_mock :: bool
  arg_limit :: int
  arg_auto :: bool
  arg_no_play :: bool

text \<open>\<^verbatim>\<open>main\<close>, after \<^verbatim>\<open>parse_args\<close>. \<open>Inr n\<close> is \<^verbatim>\<open>return n\<close>.\<close>

definition main :: "env \<Rightarrow> args \<Rightarrow> world \<Rightarrow> ((exn + int) \<times> world) option" where
  "main env a w =
     (let session = (\<lambda>q w'.
            case search_and_play env q (arg_limit a) (arg_mock a) (arg_auto a) (arg_no_play a) w' of
              None \<Rightarrow> None
            | Some (Inl e, w2) \<Rightarrow> Some (Inl e, w2)
            | Some (Inr _, w2) \<Rightarrow> Some (Inr 0, w2))
      in if truthy (arg_query a) then session (the (arg_query a)) w
         else (case input ''Search for a song (or blank to quit): '' w of
                 (None, w1) \<Rightarrow> Some (Inr 0, w1)
               | (Some l, w1) \<Rightarrow>
                   let q = py_strip env l in
                   if q = [] then Some (Inr 0, w1) else session q w1))"

subsection \<open>Vocabulary of the properties\<close>

text \<open>The input \<open>ls\<close> line by line, then \<open>rest\<close>.\<close>

primrec feed :: "string list \<Rightarrow> instream \<Rightarrow> instream" where
  "feed [] rest = rest"
| "feed (l # ls) rest = Line l (feed ls rest)"

text \<open>An input that ends: finitely many lines, then the end of input.\<close>

inductive ends :: "instream \<Rightarrow> bool" where
  ends_EOF: "ends EOF"
| ends_Line: "ends s \<Longrightarrow> ends (Line l s)"

code_pred ends .

text \<open>An input that never ends: the line \<open>l\<close>, again and again.\<close>

primcorec forever :: "string \<Rightarrow> instream" where
  "forever l = Line l (forever l)"

text \<open>How the Selector reads one line \<open>l\<close>: \<open>blank\<close> (nothing left after trimming),
  a \<open>choice\<close> (not blank, and a number between 1 and the length of the list), or
  \<open>rejected\<close> (anything else), with the message that a rejected line gets.\<close>

definition blank :: "env \<Rightarrow> string \<Rightarrow> bool" where
  "blank env l = (py_strip env l = [])"

definition choice :: "env \<Rightarrow> song list \<Rightarrow> string \<Rightarrow> int option" where
  "choice env songs l =
     (if blank env l then None
      else (case py_int env (py_strip env l) of
              None \<Rightarrow> None
            | Some v \<Rightarrow> if 1 \<le> v \<and> v \<le> int (length songs) then Some v else None))"

definition rejected :: "env \<Rightarrow> song list \<Rightarrow> string \<Rightarrow> bool" where
  "rejected env songs l = (\<not> blank env l \<and> choice env songs l = None)"

definition reject_msg :: "env \<Rightarrow> string \<Rightarrow> string" where
  "reject_msg env l =
     (if py_int env (py_strip env l) = None
      then ''Please enter a valid number.'' else ''Invalid choice. Try again.'')"

text \<open>What the Selector writes while it reads the rejected lines \<open>ls\<close>: for each of them
  the prompt and the message.\<close>

definition retries :: "env \<Rightarrow> string list \<Rightarrow> event list" where
  "retries env ls =
     concat (map (\<lambda>l. [Prompt ''Enter number (or blank to cancel): '', Print (reject_msg env l)]) ls)"

text \<open>The numbered list, as lines: \<open>i. title - artist\<close>, counting from \<open>i\<close>.\<close>

fun song_lines :: "nat \<Rightarrow> song list \<Rightarrow> string list" where
  "song_lines i [] = []"
| "song_lines i (s # ss) = (str_nat i @ ''. '' @ title s @ '' - '' @ artist s) # song_lines (Suc i) ss"

text \<open>What the Selector writes before its first prompt.\<close>

definition listing :: "song list \<Rightarrow> event list" where
  "listing songs = Print (CHR 0x0A # ''Select a song:'') # map Print (song_lines 1 songs)"

text \<open>The descriptor that the specification asks of the Live Provider for one item:
  the item's title or the placeholder, the name of the first listed artist or the
  placeholder, the identifier put into the URL template.\<close>

definition has_id :: "item \<Rightarrow> bool" where
  "has_id it = (case item_videoId it of None \<Rightarrow> False | Some v \<Rightarrow> v \<noteq> [])"

fun first_artist_name :: "artists_value \<Rightarrow> string option" where
  "first_artist_name (Listed (ArtistDict (Some n) # _)) = (if n = [] then None else Some n)"
| "first_artist_name _ = None"

definition descriptor :: "item \<Rightarrow> song" where
  "descriptor it =
     \<lparr> title = (case item_title it of None \<Rightarrow> ''Unknown Title''
                 | Some t \<Rightarrow> if t = [] then ''Unknown Title'' else t),
       artist = (case first_artist_name (item_artists it) of None \<Rightarrow> ''Unknown Artist'' | Some n \<Rightarrow> n),
       url = ''https://www.youtube.com/watch?v='' @ the (item_videoId it) \<rparr>"

text \<open>The values under \<^verbatim>\<open>"artists"\<close> on which the source's test can be evaluated: nothing,
  a list, a string, and the falsy values of the other kinds. On a number other than 0, on
  \<^verbatim>\<open>True\<close> and on a non-empty dict the subscript \<^verbatim>\<open>artists[0]\<close> raises.\<close>

fun subscriptable :: "artists_value \<Rightarrow> bool" where
  "subscriptable (ANumber n) = (n = 0)"
| "subscriptable (ABool b) = (\<not> b)"
| "subscriptable (ADict ks) = (ks = [])"
| "subscriptable _ = True"

subsection \<open>Sample surroundings for the worked examples\<close>

text \<open>
  The two builtins on ASCII text. \<^verbatim>\<open>str.strip()\<close> removes the characters for which
  \<^verbatim>\<open>str.isspace\<close> holds: in ASCII these are TAB, LF, VT, FF, CR (9..13), FS, GS, RS, US
  (28..31) and the blank (32). \<^verbatim>\<open>int(s)\<close> in base 10 (\<open>None\<close> standing for \<^verbatim>\<open>ValueError\<close>)
  skips the C white space (9..13 and 32) around the number, reads one optional sign,
  then digits in which single underscores may separate digits (none leading, trailing
  or doubled); leading zeros are allowed; a string with more than \<open>maxd\<close> digits is
  refused unless \<open>maxd\<close> is 0 (\<^verbatim>\<open>sys.get_int_max_str_digits()\<close>, 4300 by default).
  They stand in for \<open>py_strip\<close> and \<open>py_int\<close> in the examples, whose texts are ASCII; no
  statement about the program depends on them.
\<close>

definition is_space :: "char \<Rightarrow> bool" where
  "is_space c = (let n = (of_char c :: nat) in (9 \<le> n \<and> n \<le> 13) \<or> (28 \<le> n \<and> n \<le> 32))"

definition ascii_strip :: "string \<Rightarrow> string" where
  "ascii_strip s = rev (dropWhile is_space (rev (dropWhile is_space s)))"

definition is_cspace :: "char \<Rightarrow> bool" where
  "is_cspace c = (let n = (of_char c :: nat) in (9 \<le> n \<and> n \<le> 13) \<or> n = 32)"

definition digit_val :: "char \<Rightarrow> int option" where
  "digit_val c = (let n = (of_char c :: nat) in if 48 \<le> n \<and> n \<le> 57 then Some (int n - 48) else None)"

fun scan_digits :: "int \<Rightarrow> bool \<Rightarrow> string \<Rightarrow> int option" where
  "scan_digits acc us [] = (if us then None else Some acc)"
| "scan_digits acc us (c # cs) =
     (if c = CHR ''_'' then (if us then None else scan_digits acc True cs)
      else (case digit_val c of
              None \<Rightarrow> None
            | Some d \<Rightarrow> scan_digits (10 * acc + d) False cs))"

definition ascii_int :: "nat \<Rightarrow> string \<Rightarrow> int option" where
  "ascii_int maxd s =
     (let t = rev (dropWhile is_cspace (rev (dropWhile is_cspace s)));
          neg = (t \<noteq> [] \<and> hd t = CHR ''-'');
          body = (if t \<noteq> [] \<and> (hd t = CHR ''-'' \<or> hd t = CHR ''+'') then tl t else t)
      in if body = [] \<or> hd body = CHR ''_'' then None
         else (case scan_digits 0 False body of
                 None \<Rightarrow> None
               | Some v \<Rightarrow>
                   if 0 < maxd \<and> maxd < length (filter (\<lambda>c. c \<noteq> CHR ''_'') body) then None
                   else Some (if neg then - v else v)))"

text \<open>
  Two texts that are not ASCII, as Python reads them: the no-break space U+00A0 is white
  space, so that \<^verbatim>\<open>"\u00a0".strip()\<close> is empty, and the fullwidth digit two U+FF12 is a
  decimal digit, so that \<^verbatim>\<open>int("\uff12")\<close> is 2.
\<close>

definition nbsp :: string where
  "nbsp = [CHR 0xC2, CHR 0xA0]"

definition fullwidth_two :: string where
  "fullwidth_two = [CHR 0xEF, CHR 0xBC, CHR 0x92]"

text \<open>The ASCII builtins, extended by these two readings.\<close>

definition wide_strip :: "string \<Rightarrow> string" where
  "wide_strip s = (if s = nbsp then [] else ascii_strip s)"

definition wide_int :: "string \<Rightarrow> int option" where
  "wide_int s = (if s = fullwidth_two then Some 2 else ascii_int 4300 s)"

text \<open>The surroundings: no catalog library and no player; a catalog that answers four
  items (one of them without identifier) and a player that exits with status 2; a catalog
  that times out and a player that cannot be started; a catalog whose one item has a dict
  where the list of artists should be.\<close>

definition two_songs :: "song list" where
  "two_songs = [\<lparr>title = ''A'', artist = ''X'', url = ''u1''\<rparr>,
                \<lparr>title = ''B'', artist = ''Y'', url = ''u2''\<rparr>]"

definition mock_one :: song where
  "mock_one = \<lparr>title = ''abc (Mock 1)'', artist = ''Mock Artist 1'',
               url = ''https://www.youtube.com/watch?v=mock1''\<rparr>"

definition bare_env :: env where
  "bare_env = \<lparr> YTMusic = None, which = (\<lambda>_. None), run = (\<lambda>_. Completed),
                py_strip = ascii_strip, py_int = ascii_int 4300 \<rparr>"

definition wide_env :: env where
  "wide_env = \<lparr> YTMusic = None, which = (\<lambda>_. None), run = (\<lambda>_. Completed),
                py_strip = wide_strip, py_int = wide_int \<rparr>"

definition sample_items :: "item list" where
  "sample_items =
     [\<lparr> item_title = Some ''Faded'', item_artists = Listed [ArtistDict (Some ''Alan Walker'')],
        item_videoId = Some ''60ItHLz5WEA'' \<rparr>,
      \<lparr> item_title = Some ''Lost'', item_artists = Listed [], item_videoId = None \<rparr>,
      \<lparr> item_title = None, item_artists = Listed [NotADict], item_videoId = Some ''abc'' \<rparr>,
      \<lparr> item_title = Some ''Echo'', item_artists = AString ''Nobody'', item_videoId = Some ''e4'' \<rparr>]"

definition live_env :: env where
  "live_env = \<lparr> YTMusic = Some \<lparr> construct = None, search = (\<lambda>_. Inr (Some sample_items)) \<rparr>,
                which = (\<lambda>_. Some ''/usr/bin/mpv''), run = (\<lambda>_. CalledProcessError 2),
                py_strip = ascii_strip, py_int = ascii_int 4300 \<rparr>"

definition failing_env :: env where
  "failing_env = \<lparr> YTMusic = Some \<lparr> construct = None, search = (\<lambda>_. Inl (External ''timed out'')) \<rparr>,
                   which = (\<lambda>_. Some ''/usr/bin/mpv''), run = (\<lambda>_. Raised (External ''Permission denied'')),
                   py_strip = ascii_strip, py_int = ascii_int 0 \<rparr>"

definition solo_item :: item where
  "solo_item = \<lparr> item_title = Some ''Solo'', item_artists = ADict [''name''],
                 item_videoId = Some ''v1'' \<rparr>"

definition solo_env :: env where
  "solo_env = \<lparr> YTMusic = Some \<lparr> construct = None, search = (\<lambda>_. Inr (Some [solo_item])) \<rparr>,
                which = (\<lambda>_. None), run = (\<lambda>_. Completed),
                py_strip = ascii_strip, py_int = ascii_int 4300 \<rparr>"

section \<open>Properties\<close>

subsection \<open>The world and the listing\<close>

lemma emit_simps: "out (emit e w) = out w @ [e]" "stdin (emit e w) = stdin w"
  by (simp_all add: emit_def)

lemma print_simps: "out (print s w) = out w @ [Print s]" "stdin (print s w) = stdin w"
  by (simp_all add: print_def emit_def)

lemma print_songs_eq:
  "print_songs i songs w = w\<lparr>out := out w @ map Print (song_lines i songs)\<rparr>"
  by (induction i songs w rule: print_songs.induct) (simp_all add: print_def emit_def)

subsection \<open>One turn of the selection loop\<close>

lemma choose_loop_EOF:
  "stdin w = EOF \<Longrightarrow>
   choose_loop env songs w = Some (None, emit (Prompt ''Enter number (or blank to cancel): '') w)"
  by (subst choose_loop.simps) (simp add: input_def)

lemma choose_loop_blank:
  "stdin w = Line l rest \<Longrightarrow> blank env l \<Longrightarrow>
   choose_loop env songs w =
     Some (None, (emit (Prompt ''Enter number (or blank to cancel): '') w)\<lparr>stdin := rest\<rparr>)"
  by (subst choose_loop.simps) (simp add: input_def blank_def)

lemma choice_not_blank: "choice env songs l = Some v \<Longrightarrow> \<not> blank env l"
  by (simp add: choice_def split: if_splits)

lemma choose_loop_choice:
  "stdin w = Line l rest \<Longrightarrow> choice env songs l = Some v \<Longrightarrow>
   choose_loop env songs w =
     Some (Some (v - 1), (emit (Prompt ''Enter number (or blank to cancel): '') w)\<lparr>stdin := rest\<rparr>)"
  using choice_not_blank[of env songs l v]
  by (subst choose_loop.simps)
     (auto simp add: input_def choice_def blank_def Let_def split: option.splits if_splits)

lemma choose_loop_rejected:
  "stdin w = Line l rest \<Longrightarrow> rejected env songs l \<Longrightarrow>
   choose_loop env songs w =
     choose_loop env songs
       (print (reject_msg env l) ((emit (Prompt ''Enter number (or blank to cancel): '') w)\<lparr>stdin := rest\<rparr>))"
  by (subst choose_loop.simps)
     (auto simp add: input_def choice_def blank_def rejected_def reject_msg_def Let_def
           split: option.splits if_splits)

subsection \<open>The loop over a run of rejected lines\<close>

lemma choose_loop_feed:
  "stdin w = feed ls rest \<Longrightarrow> list_all (rejected env songs) ls \<Longrightarrow>
   choose_loop env songs w = choose_loop env songs (w\<lparr>stdin := rest, out := out w @ retries env ls\<rparr>)"
proof (induction ls arbitrary: w)
  case Nil
  then show ?case by (cases w) (simp add: retries_def)
next
  case (Cons l ls)
  let ?w' = "print (reject_msg env l)
               ((emit (Prompt ''Enter number (or blank to cancel): '') w)\<lparr>stdin := feed ls rest\<rparr>)"
  have "choose_loop env songs w = choose_loop env songs ?w'"
    using Cons.prems by (simp add: choose_loop_rejected)
  also have "\<dots> = choose_loop env songs (?w'\<lparr>stdin := rest, out := out ?w' @ retries env ls\<rparr>)"
    using Cons.prems by (intro Cons.IH) (simp_all add: print_def emit_def)
  also have "?w'\<lparr>stdin := rest, out := out ?w' @ retries env ls\<rparr>
             = w\<lparr>stdin := rest, out := out w @ retries env (l # ls)\<rparr>"
    by (simp add: print_def emit_def retries_def)
  finally show ?case .
qed

text \<open>On an input that ends, the loop returns.\<close>

lemma choose_loop_ends: "ends s \<Longrightarrow> stdin w = s \<Longrightarrow> \<exists>r. choose_loop env songs w = Some r"
proof (induction arbitrary: w rule: ends.induct)
  case ends_EOF
  then show ?case by (simp add: choose_loop_EOF)
next
  case (ends_Line s l)
  show ?case
  proof (cases "blank env l")
    case True
    then show ?thesis using ends_Line.prems by (simp add: choose_loop_blank)
  next
    case False
    show ?thesis
    proof (cases "choice env songs l")
      case None
      then have "rejected env songs l" using False by (simp add: rejected_def)
      then show ?thesis using ends_Line.prems ends_Line.IH
        by (simp add: choose_loop_rejected print_simps emit_simps)
    next
      case (Some v)
      then show ?thesis using ends_Line.prems by (simp add: choose_loop_choice)
    qed
  qed
qed

lemma choose_loop_returns: "ends (stdin w) \<Longrightarrow> choose_loop env songs w \<noteq> None"
  using choose_loop_ends[of "stdin w" w env songs] by auto

text \<open>Whatever the loop returns is an index into the list: fixpoint induction.\<close>

lemma choose_loop_range:
  assumes "choose_loop env songs w = Some y"
  shows "\<forall>i. fst y = Some i \<longrightarrow> 0 \<le> i \<and> i < int (length songs)"
  by (rule choose_loop.raw_induct
        [where P = "\<lambda>e ss w y. \<forall>i. fst y = Some i \<longrightarrow> 0 \<le> i \<and> i < int (length ss)", OF _ assms])
     (auto simp: Let_def split: prod.splits option.splits if_splits)

text \<open>On an endless input of one rejected line the loop never returns.\<close>

lemma choose_loop_forever:
  assumes "rejected env songs l" and "stdin w = forever l"
  shows "choose_loop env songs w = None"
proof (cases "choose_loop env songs w")
  case None
  then show ?thesis .
next
  case (Some y)
  have "\<not> (e = env \<and> ss = songs \<and> stdin w' = forever l)"
    if "choose_loop e ss w' = Some y'" for e ss w' y'
  proof (rule choose_loop.raw_induct[where P = "\<lambda>e ss w' y'. \<not> (e = env \<and> ss = songs \<and> stdin w' = forever l)", OF _ that], goal_cases)
    case (1 f e ss w' y')
    show ?case
    proof
      assume a: "e = env \<and> ss = songs \<and> stdin w' = forever l"
      then have s: "stdin w' = Line l (forever l)" by (subst forever.code[symmetric]) simp
      let ?w1 = "print (reject_msg env l) ((emit (Prompt ''Enter number (or blank to cancel): '') w')\<lparr>stdin := forever l\<rparr>)"
      from a have es: "e = env" "ss = songs" by simp_all
      from 1(2) es s assms(1) have "f env songs ?w1 = Some y'"
        by (auto simp add: input_def choice_def blank_def rejected_def reject_msg_def Let_def
              split: option.splits if_splits)
      from 1(1)[OF this] show False by (simp add: print_def emit_def)
    qed
  qed
  from this[OF Some] assms(2) show ?thesis by simp
qed

lemma choose_song_range:
  "choose_song env songs auto w = Some (Some i, w') \<Longrightarrow> 0 \<le> i \<and> i < int (length songs)"
  using choose_loop_range[of env songs _ "(Some i, w')"]
  by (auto simp: choose_song_def split: if_splits)

lemma choose_song_returns:
  "auto \<or> songs = [] \<or> ends (stdin w) \<Longrightarrow> choose_song env songs auto w \<noteq> None"
proof (cases "songs = [] \<or> auto")
  case True
  then show ?thesis by (auto simp: choose_song_def)
next
  case False
  let ?w = "print_songs 1 songs (print (CHR 0x0A # ''Select a song:'') w)"
  assume "auto \<or> songs = [] \<or> ends (stdin w)"
  with False have "ends (stdin ?w)" by (simp add: print_songs_eq print_simps)
  then have "choose_loop env songs ?w \<noteq> None" by (rule choose_loop_returns)
  with False show ?thesis by (simp add: choose_song_def)
qed

lemma sample_builtins:
  "py_strip bare_env = ascii_strip" "py_int bare_env = ascii_int 4300"
  "py_strip live_env = ascii_strip" "py_strip failing_env = ascii_strip"
  "py_strip solo_env = ascii_strip"
  by (simp_all add: bare_env_def live_env_def failing_env_def solo_env_def)

lemma strip_blanks: "ascii_strip ''   '' = []"
  by (simp add: ascii_strip_def is_space_def)

lemma wide_builtins:
  "py_strip wide_env fullwidth_two = fullwidth_two" "py_int wide_env fullwidth_two = Some 2"
  "py_strip wide_env nbsp = []"
  by (simp_all add: wide_env_def wide_strip_def wide_int_def nbsp_def fullwidth_two_def
        ascii_strip_def is_space_def)

lemma fullwidth_two_nonempty: "fullwidth_two \<noteq> []"
  by (simp add: fullwidth_two_def)

subsection \<open>The Selector on an empty list, and with automatic selection\<close>

text \<open>
  C10. On the empty result sequence \<open>choose_song\<close> returns no selection, whatever the
  \<open>auto\<close> flag says, and the world is unchanged: no line is read and nothing is written.
  The guard is the Selector's own first test.
\<close>

theorem choose_song_empty: "choose_song env [] auto w = Some (None, w)"
  by (simp add: choose_song_def)

text \<open>
  C8. On a non-empty result sequence, \<open>choose_song\<close> with \<open>auto = True\<close> returns index 0,
  whatever the length and the contents of the sequence, and the world is unchanged: no
  line is read.
\<close>

theorem choose_song_auto: "songs \<noteq> [] \<Longrightarrow> choose_song env songs True w = Some (Some 0, w)"
  by (simp add: choose_song_def)

theorem choose_song_auto_witness:
  "[\<lparr>title = ''t'', artist = ''a'', url = ''u''\<rparr>] \<noteq> [] \<and>
   choose_song bare_env [\<lparr>title = ''t'', artist = ''a'', url = ''u''\<rparr>] True
       \<lparr>stdin = Line ''7'' EOF, out = []\<rparr>
     = Some (Some 0, \<lparr>stdin = Line ''7'' EOF, out = []\<rparr>)"
  using choose_song_auto[of "[\<lparr>title = ''t'', artist = ''a'', url = ''u''\<rparr>]" bare_env
          "\<lparr>stdin = Line ''7'' EOF, out = []\<rparr>"]
  by simp

subsection \<open>The Session Controller: empty query, failing search\<close>

text \<open>
  C7. When the query is empty after trimming (\<^verbatim>\<open>query.strip()\<close> is the empty string,
  whatever white space, ASCII or not, the query held), \<open>search_and_play\<close> writes the line
  \<open>Empty query.\<close> and returns no selection. That line is all it does: the result does not
  depend on the provider, and the trace gains no catalog event, so no search is made.
\<close>

theorem empty_query_no_search:
  "py_strip env q = [] \<Longrightarrow>
   search_and_play env q lim use_mock auto no_play w
     = Some (Inr None, w\<lparr>out := out w @ [Print ''Empty query.'']\<rparr>)"
  by (simp add: search_and_play_def print_def emit_def)

theorem empty_query_no_search_witness:
  "py_strip live_env ''   '' = []
   \<and> search_and_play live_env ''   '' 5 False True False \<lparr>stdin = EOF, out = []\<rparr>
       = Some (Inr None, \<lparr>stdin = EOF, out = [Print ''Empty query.'']\<rparr>)
   \<and> py_strip wide_env nbsp = []
   \<and> search_and_play wide_env nbsp 5 True True False \<lparr>stdin = EOF, out = []\<rparr>
       = Some (Inr None, \<lparr>stdin = EOF, out = [Print ''Empty query.'']\<rparr>)"
proof -
  have a: "py_strip live_env ''   '' = []" by (simp add: strip_blanks sample_builtins)
  have b: "py_strip wide_env nbsp = []" by (simp add: wide_builtins)
  from empty_query_no_search[OF a, of 5 False True False "\<lparr>stdin = EOF, out = []\<rparr>"]
       empty_query_no_search[OF b, of 5 True True False "\<lparr>stdin = EOF, out = []\<rparr>"] a b
  show ?thesis by simp
qed

text \<open>
  C4. Whatever exception the search step raises, \<open>search_and_play\<close> catches it, writes
  \<open>Error while searching: \<close> followed by the exception's text, and returns no selection.
  In particular, when \<^verbatim>\<open>YTMusic\<close> is \<open>None\<close> (the library is not installed) the Live
  Provider raises its \<^verbatim>\<open>RuntimeError\<close> with the world unchanged, that is before it
  constructs a client or contacts the catalog, and the session reports it the same way.
\<close>

theorem search_failure_reported:
  "py_strip env q \<noteq> [] \<Longrightarrow>
   (\<forall>e w1. run_search env use_mock q lim w = (Inl e, w1) \<longrightarrow>
      search_and_play env q lim use_mock auto no_play w
        = Some (Inr None, w1\<lparr>out := out w1 @ [Print (''Error while searching: '' @ str_exn e)]\<rparr>))
   \<and> (YTMusic env = None \<longrightarrow>
        search_with_ytmusic env q lim w
          = (Inl (RuntimeError ''ytmusicapi not installed. Run: pip install ytmusicapi''), w)
        \<and> search_and_play env q lim False auto no_play w
          = Some (Inr None, w\<lparr>out := out w @
              [Print ''Error while searching: ytmusicapi not installed. Run: pip install ytmusicapi'']\<rparr>))"
  by (simp add: search_and_play_def run_search_def search_with_ytmusic_def print_def emit_def)

lemma strip_faded: "ascii_strip ''faded'' = ''faded''"
  by (simp add: ascii_strip_def is_space_def)

theorem search_failure_reported_witness:
  "py_strip failing_env ''faded'' \<noteq> [] \<and> py_strip bare_env ''faded'' \<noteq> []
   \<and> run_search failing_env False ''faded'' 5 \<lparr>stdin = EOF, out = []\<rparr>
       = (Inl (External ''timed out''), \<lparr>stdin = EOF, out = [YTMusicNew, YTMusicSearch ''faded'']\<rparr>)
   \<and> search_and_play failing_env ''faded'' 5 False False False \<lparr>stdin = EOF, out = []\<rparr>
       = Some (Inr None, \<lparr>stdin = EOF, out = [YTMusicNew, YTMusicSearch ''faded'',
                                               Print ''Error while searching: timed out'']\<rparr>)
   \<and> YTMusic bare_env = None
   \<and> search_and_play bare_env ''faded'' 5 False False False \<lparr>stdin = EOF, out = []\<rparr>
       = Some (Inr None, \<lparr>stdin = EOF, out =
            [Print ''Error while searching: ytmusicapi not installed. Run: pip install ytmusicapi'']\<rparr>)"
proof -
  let ?w = "\<lparr>stdin = EOF, out = []\<rparr>"
  have q: "py_strip failing_env ''faded'' \<noteq> []" and q': "py_strip bare_env ''faded'' \<noteq> []"
    by (simp_all add: strip_faded sample_builtins)
  have r: "run_search failing_env False ''faded'' 5 ?w
             = (Inl (External ''timed out''), \<lparr>stdin = EOF, out = [YTMusicNew, YTMusicSearch ''faded'']\<rparr>)"
    by (simp add: run_search_def search_with_ytmusic_def failing_env_def emit_def)
  have n: "YTMusic bare_env = None" by (simp add: bare_env_def)
  from search_failure_reported[OF q, of False 5 ?w False False] r
  have a: "search_and_play failing_env ''faded'' 5 False False False ?w
       = Some (Inr None, \<lparr>stdin = EOF, out = [YTMusicNew, YTMusicSearch ''faded'',
                                               Print ''Error while searching: timed out'']\<rparr>)"
    by simp
  from search_failure_reported[OF q', of False 5 ?w False False] n
  have b: "search_and_play bare_env ''faded'' 5 False False False ?w
       = Some (Inr None, \<lparr>stdin = EOF, out =
            [Print ''Error while searching: ytmusicapi not installed. Run: pip install ytmusicapi'']\<rparr>)"
    by simp
  from q q' r a n b show ?thesis by blast
qed

subsection \<open>The interactive Selector\<close>

text \<open>
  C1. Let the list be non-empty and let the input start with the lines \<open>ls\<close>, each of
  them rejected (not blank, and not a number between 1 and the length of the list), and
  go on with \<open>rest\<close>. Then interactive \<open>choose_song\<close>
  \<^item> returns \<open>v - 1\<close> when \<open>rest\<close> starts with a line that \<^verbatim>\<open>int\<close> reads as \<open>v\<close> with
    \<open>1 \<le> v \<le> length songs\<close>: the first such line of the input;
  \<^item> returns no selection when \<open>rest\<close> starts with a blank env line, or is the end of input;
  \<^item> has answered each rejected line with its message and a new prompt, as the trace
    \<open>retries env ls\<close> followed by one more prompt shows, and has read exactly the lines
    up to the deciding one.
  \<open>Parses\<close> is what the source computes: \<^verbatim>\<open>int(line.strip())\<close> succeeds, on a line that is
  not blank (\<^verbatim>\<open>int\<close> raises on the empty string, so that no blank line parses). The
  builtins are those of \<open>env\<close>, so the lines may hold any text: a fullwidth digit that
  \<^verbatim>\<open>int\<close> reads is a choice, a no-break space that \<^verbatim>\<open>str.strip\<close> removes is blank.
\<close>

theorem choose_song_interactive:
  assumes "songs \<noteq> []" and "stdin w = feed ls rest" and "list_all (rejected env songs) ls"
  shows "(\<forall>l v rest'. rest = Line l rest' \<and> py_strip env l \<noteq> []
                        \<and> py_int env (py_strip env l) = Some v
                        \<and> 1 \<le> v \<and> v \<le> int (length songs) \<longrightarrow>
            choose_song env songs False w
              = Some (Some (v - 1),
                      w\<lparr>stdin := rest',
                        out := out w @ listing songs @ retries env ls
                                 @ [Prompt ''Enter number (or blank to cancel): '']\<rparr>))
       \<and> (\<forall>l rest'. rest = Line l rest' \<and> py_strip env l = [] \<longrightarrow>
            choose_song env songs False w
              = Some (None,
                      w\<lparr>stdin := rest',
                        out := out w @ listing songs @ retries env ls
                                 @ [Prompt ''Enter number (or blank to cancel): '']\<rparr>))
       \<and> (rest = EOF \<longrightarrow>
            choose_song env songs False w
              = Some (None,
                      w\<lparr>stdin := EOF,
                        out := out w @ listing songs @ retries env ls
                                 @ [Prompt ''Enter number (or blank to cancel): '']\<rparr>))"
proof -
  let ?w0 = "print_songs 1 songs (print (CHR 0x0A # ''Select a song:'') w)"
  let ?w1 = "w\<lparr>stdin := rest, out := out w @ listing songs @ retries env ls\<rparr>"
  have "choose_song env songs False w = choose_loop env songs ?w0"
    using assms(1) by (simp add: choose_song_def)
  also have "\<dots> = choose_loop env songs (?w0\<lparr>stdin := rest, out := out ?w0 @ retries env ls\<rparr>)"
    using assms(2,3) by (intro choose_loop_feed) (simp_all add: print_songs_eq print_simps)
  also have "?w0\<lparr>stdin := rest, out := out ?w0 @ retries env ls\<rparr> = ?w1"
    by (simp add: print_songs_eq print_def emit_def listing_def)
  finally have run: "choose_song env songs False w = choose_loop env songs ?w1" .
  have a: "choose_loop env songs ?w1 = Some (Some (v - 1),
             w\<lparr>stdin := rest', out := out w @ listing songs @ retries env ls
                                 @ [Prompt ''Enter number (or blank to cancel): '']\<rparr>)"
    if "rest = Line l rest'" "py_strip env l \<noteq> []" "py_int env (py_strip env l) = Some v"
       "1 \<le> v" "v \<le> int (length songs)" for l v rest'
  proof -
    have "choice env songs l = Some v" using that by (simp add: choice_def blank_def)
    then show ?thesis using that(1)
      by (subst choose_loop_choice[where l=l and rest=rest' and v=v]) (simp_all add: emit_def)
  qed
  have b: "choose_loop env songs ?w1 = Some (None,
             w\<lparr>stdin := rest', out := out w @ listing songs @ retries env ls
                                 @ [Prompt ''Enter number (or blank to cancel): '']\<rparr>)"
    if "rest = Line l rest'" "py_strip env l = []" for l rest'
    using that
    by (subst choose_loop_blank[where l=l and rest=rest']) (simp_all add: emit_def blank_def)
  have c: "choose_loop env songs ?w1 = Some (None,
             w\<lparr>stdin := EOF, out := out w @ listing songs @ retries env ls
                                 @ [Prompt ''Enter number (or blank to cancel): '']\<rparr>)"
    if "rest = EOF"
    using that by (subst choose_loop_EOF) (simp_all add: emit_def)
  show ?thesis unfolding run using a b c by blast
qed


lemma strip_x:
  "ascii_strip ''x'' = ''x''" "ascii_strip ''9'' = ''9''" "ascii_strip '' 2 '' = ''2''"
  "ascii_strip ''2'' = ''2''" "ascii_strip '' '' = []"
  by (simp_all add: ascii_strip_def is_space_def)

lemma int_x:
  "ascii_int 4300 ''x'' = None" "ascii_int 4300 ''9'' = Some 9" "ascii_int 4300 ''2'' = Some 2"
  by (simp_all add: ascii_int_def is_cspace_def digit_val_def)

lemma rejected_x: "rejected bare_env two_songs ''x''" "rejected bare_env two_songs ''9''"
  by (simp_all add: rejected_def blank_def choice_def strip_x int_x sample_builtins two_songs_def)

lemma retries_x:
  "retries bare_env [''x'', ''9''] =
     [Prompt ''Enter number (or blank to cancel): '', Print ''Please enter a valid number.'',
      Prompt ''Enter number (or blank to cancel): '', Print ''Invalid choice. Try again.'']"
  by (simp add: retries_def reject_msg_def strip_x int_x sample_builtins)

lemma listing_two:
  "listing two_songs = [Print (CHR 0x0A # ''Select a song:''), Print ''1. A - X'', Print ''2. B - Y'']"
  by (simp add: listing_def two_songs_def str_nat.simps digit_char_def)


theorem choose_song_interactive_witness:
  "two_songs \<noteq> []
   \<and> list_all (rejected bare_env two_songs) [''x'', ''9'']
   \<and> py_strip bare_env '' 2 '' \<noteq> []
   \<and> py_int bare_env (py_strip bare_env '' 2 '') = Some 2 \<and> (1::int) \<le> 2
   \<and> 2 \<le> int (length two_songs)
   \<and> choose_song bare_env two_songs False
         \<lparr>stdin = Line ''x'' (Line ''9'' (Line '' 2 '' (Line ''1'' EOF))), out = []\<rparr>
       = Some (Some 1, \<lparr>stdin = Line ''1'' EOF, out =
           [Print (CHR 0x0A # ''Select a song:''), Print ''1. A - X'', Print ''2. B - Y'',
            Prompt ''Enter number (or blank to cancel): '', Print ''Please enter a valid number.'',
            Prompt ''Enter number (or blank to cancel): '', Print ''Invalid choice. Try again.'',
            Prompt ''Enter number (or blank to cancel): '']\<rparr>)
   \<and> py_strip bare_env '' '' = []
   \<and> choose_song bare_env two_songs False
         \<lparr>stdin = Line ''x'' (Line ''9'' (Line '' '' (Line ''1'' EOF))), out = []\<rparr>
       = Some (None, \<lparr>stdin = Line ''1'' EOF, out =
           [Print (CHR 0x0A # ''Select a song:''), Print ''1. A - X'', Print ''2. B - Y'',
            Prompt ''Enter number (or blank to cancel): '', Print ''Please enter a valid number.'',
            Prompt ''Enter number (or blank to cancel): '', Print ''Invalid choice. Try again.'',
            Prompt ''Enter number (or blank to cancel): '']\<rparr>)
   \<and> choose_song bare_env two_songs False
         \<lparr>stdin = Line ''x'' (Line ''9'' EOF), out = []\<rparr>
       = Some (None, \<lparr>stdin = EOF, out =
           [Print (CHR 0x0A # ''Select a song:''), Print ''1. A - X'', Print ''2. B - Y'',
            Prompt ''Enter number (or blank to cancel): '', Print ''Please enter a valid number.'',
            Prompt ''Enter number (or blank to cancel): '', Print ''Invalid choice. Try again.'',
            Prompt ''Enter number (or blank to cancel): '']\<rparr>)
   \<and> py_strip wide_env fullwidth_two \<noteq> []
   \<and> py_int wide_env (py_strip wide_env fullwidth_two) = Some 2
   \<and> choose_song wide_env two_songs False
         \<lparr>stdin = Line fullwidth_two (Line ''1'' EOF), out = []\<rparr>
       = Some (Some 1, \<lparr>stdin = Line ''1'' EOF, out =
           [Print (CHR 0x0A # ''Select a song:''), Print ''1. A - X'', Print ''2. B - Y'',
            Prompt ''Enter number (or blank to cancel): '']\<rparr>)
   \<and> py_strip wide_env nbsp = []
   \<and> choose_song wide_env two_songs False
         \<lparr>stdin = Line nbsp (Line ''1'' EOF), out = []\<rparr>
       = Some (None, \<lparr>stdin = Line ''1'' EOF, out =
           [Print (CHR 0x0A # ''Select a song:''), Print ''1. A - X'', Print ''2. B - Y'',
            Prompt ''Enter number (or blank to cancel): '']\<rparr>)"
proof -
  have s: "two_songs \<noteq> []" by (simp add: two_songs_def)
  have r: "list_all (rejected bare_env two_songs) [''x'', ''9'']" by (simp add: rejected_x)
  have r0: "list_all (rejected wide_env two_songs) []" by simp
  have nb: "py_strip bare_env '' 2 '' \<noteq> []" by (simp add: strip_x sample_builtins)
  have p: "py_int bare_env (py_strip bare_env '' 2 '') = Some 2"
    by (simp add: strip_x int_x sample_builtins)
  have n: "2 \<le> int (length two_songs)" by (simp add: two_songs_def)
  have b: "py_strip bare_env '' '' = []" by (simp add: strip_x sample_builtins)
  have wn: "py_strip wide_env fullwidth_two \<noteq> []"
    by (simp add: wide_builtins fullwidth_two_nonempty)
  have wp: "py_int wide_env (py_strip wide_env fullwidth_two) = Some 2"
    by (simp add: wide_builtins)
  have wb: "py_strip wide_env nbsp = []" by (simp add: wide_builtins)
  have a1: "choose_song bare_env two_songs False
         \<lparr>stdin = Line ''x'' (Line ''9'' (Line '' 2 '' (Line ''1'' EOF))), out = []\<rparr>
       = Some (Some 1, \<lparr>stdin = Line ''1'' EOF, out =
           [Print (CHR 0x0A # ''Select a song:''), Print ''1. A - X'', Print ''2. B - Y'',
            Prompt ''Enter number (or blank to cancel): '', Print ''Please enter a valid number.'',
            Prompt ''Enter number (or blank to cancel): '', Print ''Invalid choice. Try again.'',
            Prompt ''Enter number (or blank to cancel): '']\<rparr>)"
    using choose_song_interactive[OF s _ r,
            of "\<lparr>stdin = Line ''x'' (Line ''9'' (Line '' 2 '' (Line ''1'' EOF))), out = []\<rparr>"
               "Line '' 2 '' (Line ''1'' EOF)"] nb p n
    by (simp add: retries_x listing_two)
  have a2: "choose_song bare_env two_songs False
         \<lparr>stdin = Line ''x'' (Line ''9'' (Line '' '' (Line ''1'' EOF))), out = []\<rparr>
       = Some (None, \<lparr>stdin = Line ''1'' EOF, out =
           [Print (CHR 0x0A # ''Select a song:''), Print ''1. A - X'', Print ''2. B - Y'',
            Prompt ''Enter number (or blank to cancel): '', Print ''Please enter a valid number.'',
            Prompt ''Enter number (or blank to cancel): '', Print ''Invalid choice. Try again.'',
            Prompt ''Enter number (or blank to cancel): '']\<rparr>)"
    using choose_song_interactive[OF s _ r,
            of "\<lparr>stdin = Line ''x'' (Line ''9'' (Line '' '' (Line ''1'' EOF))), out = []\<rparr>"
               "Line '' '' (Line ''1'' EOF)"] b
    by (simp add: retries_x listing_two)
  have a3: "choose_song bare_env two_songs False
         \<lparr>stdin = Line ''x'' (Line ''9'' EOF), out = []\<rparr>
       = Some (None, \<lparr>stdin = EOF, out =
           [Print (CHR 0x0A # ''Select a song:''), Print ''1. A - X'', Print ''2. B - Y'',
            Prompt ''Enter number (or blank to cancel): '', Print ''Please enter a valid number.'',
            Prompt ''Enter number (or blank to cancel): '', Print ''Invalid choice. Try again.'',
            Prompt ''Enter number (or blank to cancel): '']\<rparr>)"
    using choose_song_interactive[OF s _ r,
            of "\<lparr>stdin = Line ''x'' (Line ''9'' EOF), out = []\<rparr>" EOF]
    by (simp add: retries_x listing_two)
  have a4: "choose_song wide_env two_songs False
         \<lparr>stdin = Line fullwidth_two (Line ''1'' EOF), out = []\<rparr>
       = Some (Some 1, \<lparr>stdin = Line ''1'' EOF, out =
           [Print (CHR 0x0A # ''Select a song:''), Print ''1. A - X'', Print ''2. B - Y'',
            Prompt ''Enter number (or blank to cancel): '']\<rparr>)"
    using choose_song_interactive[OF s _ r0,
            of "\<lparr>stdin = Line fullwidth_two (Line ''1'' EOF), out = []\<rparr>"
               "Line fullwidth_two (Line ''1'' EOF)"] wn wp n
    by (simp add: retries_def listing_two)
  have a5: "choose_song wide_env two_songs False
         \<lparr>stdin = Line nbsp (Line ''1'' EOF), out = []\<rparr>
       = Some (None, \<lparr>stdin = Line ''1'' EOF, out =
           [Print (CHR 0x0A # ''Select a song:''), Print ''1. A - X'', Print ''2. B - Y'',
            Prompt ''Enter number (or blank to cancel): '']\<rparr>)"
    using choose_song_interactive[OF s _ r0,
            of "\<lparr>stdin = Line nbsp (Line ''1'' EOF), out = []\<rparr>"
               "Line nbsp (Line ''1'' EOF)"] wb
    by (simp add: retries_def listing_two)
  from s r nb p n b wn wp wb a1 a2 a3 a4 a5 show ?thesis by simp
qed

subsection \<open>The Session Controller after the search\<close>

lemma index_in_range:
  "0 \<le> i \<Longrightarrow> i < int (length xs) \<Longrightarrow> index xs i = Inr (xs ! nat i)"
  by (simp add: index_def)

lemma run_search_stdin: "run_search env use_mock q lim w = (r, w1) \<Longrightarrow> stdin w1 = stdin w"
  by (auto simp: run_search_def search_with_ytmusic_def emit_def Let_def
           split: if_splits option.splits sum.splits)

lemma play_with_mpv_stdin: "play_with_mpv env u w = (r, w1) \<Longrightarrow> stdin w1 = stdin w"
  by (auto simp: play_with_mpv_def emit_def print_def Let_def split: if_splits run_outcome.splits)

text \<open>The session after a successful, non-empty search.\<close>

lemma search_and_play_found:
  assumes "py_strip env q \<noteq> []" and "run_search env use_mock q lim w = (Inr songs, w1)" and "songs \<noteq> []"
  shows "search_and_play env q lim use_mock auto no_play w =
     (case choose_song env songs auto (print_songs 1 songs (print (CHR 0x0A # ''Top Results:'') w1)) of
        None \<Rightarrow> None
      | Some (None, w2) \<Rightarrow> Some (Inr None, print ''No song selected.'' w2)
      | Some (Some idx, w2) \<Rightarrow>
          (let selected = songs ! nat idx; w3 = report_selected selected w2 in
           if no_play
           then Some (Inr (Some selected), print ''--no-play enabled, not launching mpv.'' w3)
           else (case play_with_mpv env (url selected) w3 of
                   (Inl e, w4) \<Rightarrow> Some (Inr (Some selected), print (''Failed to play: '' @ str_exn e) w4)
                 | (Inr _, w4) \<Rightarrow> Some (Inr (Some selected), w4))))"
proof -
  let ?c = "choose_song env songs auto (print_songs 1 songs (print (CHR 0x0A # ''Top Results:'') w1))"
  show ?thesis
  proof (cases ?c)
    case None
    then show ?thesis using assms by (simp add: search_and_play_def)
  next
    case (Some r)
    obtain sel w2 where r: "r = (sel, w2)" by (cases r)
    show ?thesis
    proof (cases sel)
      case None
      then show ?thesis using assms Some r by (simp add: search_and_play_def)
    next
      case (Some idx)
      with \<open>?c = Some r\<close> r have c: "?c = Some (Some idx, w2)" by simp
      from choose_song_range[OF c] have "index songs idx = Inr (songs ! nat idx)"
        by (simp add: index_in_range)
      then show ?thesis using assms c by (simp add: search_and_play_def Let_def)
    qed
  qed
qed

lemma search_and_play_no_exn:
  "search_and_play env q lim use_mock auto no_play w = Some (r, w') \<Longrightarrow> \<exists>x. r = Inr x"
proof (cases "py_strip env q = []")
  case True
  assume "search_and_play env q lim use_mock auto no_play w = Some (r, w')"
  with True show ?thesis by (auto simp: search_and_play_def)
next
  case False
  assume a: "search_and_play env q lim use_mock auto no_play w = Some (r, w')"
  obtain res w1 where rs: "run_search env use_mock q lim w = (res, w1)" by (cases "run_search env use_mock q lim w")
  show ?thesis
  proof (cases res)
    case (Inl e)
    with a False rs show ?thesis by (auto simp: search_and_play_def)
  next
    case (Inr songs)
    show ?thesis
    proof (cases "songs = []")
      case True
      with a False rs Inr show ?thesis by (auto simp: search_and_play_def)
    next
      case nonempty: False
      from a show ?thesis
        unfolding search_and_play_found[OF False rs[unfolded Inr] nonempty]
        by (auto simp: Let_def split: option.splits prod.splits if_splits sum.splits)
    qed
  qed
qed

lemma search_and_play_member:
  assumes "search_and_play env q lim use_mock auto no_play w = Some (Inr (Some s), w')"
  shows "\<exists>songs w1. run_search env use_mock q lim w = (Inr songs, w1) \<and> s \<in> set songs"
proof -
  have q: "py_strip env q \<noteq> []" using assms by (auto simp: search_and_play_def split: if_splits)
  obtain res w1 where rs: "run_search env use_mock q lim w = (res, w1)" by (cases "run_search env use_mock q lim w")
  from assms q rs obtain songs where res: "res = Inr songs" and ne: "songs \<noteq> []"
    by (cases res) (auto simp: search_and_play_def split: if_splits)
  from assms obtain idx w2 where
    c: "choose_song env songs auto (print_songs 1 songs (print (CHR 0x0A # ''Top Results:'') w1)) = Some (Some idx, w2)"
    and s: "s = songs ! nat idx"
    unfolding search_and_play_found[OF q rs[unfolded res] ne]
    by (auto simp: Let_def split: option.splits prod.splits if_splits sum.splits)
  from choose_song_range[OF c] have "nat idx < length songs" by auto
  then have "s \<in> set songs" using s by simp
  then show ?thesis using rs res by blast
qed

lemma search_and_play_returns:
  assumes "auto \<or> ends (stdin w)"
  shows "search_and_play env q lim use_mock auto no_play w \<noteq> None"
proof (cases "py_strip env q = []")
  case True
  then show ?thesis by (simp add: search_and_play_def)
next
  case False
  obtain res w1 where rs: "run_search env use_mock q lim w = (res, w1)" by (cases "run_search env use_mock q lim w")
  show ?thesis
  proof (cases res)
    case (Inl e)
    with False rs show ?thesis by (simp add: search_and_play_def)
  next
    case (Inr songs)
    show ?thesis
    proof (cases "songs = []")
      case True
      with False rs Inr show ?thesis by (simp add: search_and_play_def)
    next
      case nonempty: False
      let ?w = "print_songs 1 songs (print (CHR 0x0A # ''Top Results:'') w1)"
      have "stdin ?w = stdin w" using run_search_stdin[OF rs] by (simp add: print_songs_eq print_simps)
      with assms have "auto \<or> songs = [] \<or> ends (stdin ?w)" by auto
      then have "choose_song env songs auto ?w \<noteq> None" by (rule choose_song_returns)
      then show ?thesis
        unfolding search_and_play_found[OF False rs[unfolded Inr] nonempty]
        by (auto simp: Let_def split: option.splits prod.splits if_splits sum.splits)
    qed
  qed
qed

lemma main_session:
  "(case search_and_play env q lim use_mock auto no_play w of
      None \<Rightarrow> None
    | Some (Inl e, w2) \<Rightarrow> Some (Inl e, w2)
    | Some (Inr x, w2) \<Rightarrow> Some (Inr (0::int), w2))
   = map_option (\<lambda>(r, w2). (Inr 0, w2)) (search_and_play env q lim use_mock auto no_play w)"
proof (cases "search_and_play env q lim use_mock auto no_play w")
  case None
  then show ?thesis by simp
next
  case (Some p)
  obtain r w2 where p: "p = (r, w2)" by (cases p)
  from search_and_play_no_exn[OF Some[unfolded p]] obtain x where "r = Inr x" by blast
  with Some p show ?thesis by simp
qed

lemma ends_Line_iff: "ends (Line l s) = ends s"
  by (auto intro: ends.intros elim: ends.cases)

subsection \<open>The sample sessions, evaluated\<close>

lemma strip_abc: "ascii_strip ''abc'' = ''abc''"
  by (simp add: ascii_strip_def is_space_def)

lemma mock_abc_1:
  "search_with_mock ''abc'' 1 =
     [\<lparr>title = ''abc (Mock 1)'', artist = ''Mock Artist 1'',
       url = ''https://www.youtube.com/watch?v=mock1''\<rparr>]"
  by (simp add: search_with_mock_def str_int_def str_nat.simps digit_char_def)

lemma choose_two:
  "choose_song bare_env two_songs False \<lparr>stdin = Line ''2'' EOF, out = []\<rparr>
     = Some (Some 1, \<lparr>stdin = EOF, out =
         [Print (CHR 0x0A # ''Select a song:''), Print ''1. A - X'', Print ''2. B - Y'',
          Prompt ''Enter number (or blank to cancel): '']\<rparr>)"
proof -
  have c: "choice bare_env two_songs ''2'' = Some 2"
    by (simp add: choice_def blank_def strip_x int_x sample_builtins two_songs_def)
  show ?thesis
    by (simp add: choose_song_def print_songs_eq print_def
          choose_loop_choice[where l="''2''" and rest=EOF and v=2, OF _ c] emit_def)
       (simp add: two_songs_def str_nat.simps digit_char_def)
qed

lemma session_no_play:
  "search_and_play bare_env ''abc'' 1 True True True \<lparr>stdin = EOF, out = []\<rparr>
     = Some (Inr (Some mock_one),
             \<lparr>stdin = EOF, out =
               [Print (CHR 0x0A # ''Top Results:''), Print ''1. abc (Mock 1) - Mock Artist 1'',
                Print (selected_line mock_one), Print (url_line mock_one),
                Print ''--no-play enabled, not launching mpv.'']\<rparr>)"
  by (simp add: search_and_play_def strip_abc sample_builtins run_search_def mock_abc_1
        choose_song_def index_def
        report_selected_def print_def emit_def str_nat.simps digit_char_def mock_one_def)

lemma top_results_one:
  "print_songs 1 [mock_one] (print (CHR 0x0A # ''Top Results:'') \<lparr>stdin = EOF, out = []\<rparr>)
     = \<lparr>stdin = EOF, out = [Print (CHR 0x0A # ''Top Results:''),
                              Print ''1. abc (Mock 1) - Mock Artist 1'']\<rparr>"
  by (simp add: print_def emit_def str_nat.simps digit_char_def mock_one_def)

subsection \<open>The selected index is in bounds\<close>

text \<open>
  C9. Whatever \<open>choose_song\<close> returns is no selection or an index \<open>i\<close> with
  \<open>0 \<le> i < length songs\<close>, so that the lookup \<^verbatim>\<open>songs[idx]\<close> finds \<open>songs ! i\<close>; and it does
  return when the selection is automatic, the list is empty or the input ends.
  Consequently no exception ever leaves \<open>search_and_play\<close> (the lookup cannot raise
  \<^verbatim>\<open>IndexError\<close>), and a descriptor that it returns is an element of the sequence that
  the search step produced.
\<close>

theorem selection_in_bounds:
  "(\<forall>i w'. choose_song env songs auto w = Some (Some i, w') \<longrightarrow>
       0 \<le> i \<and> i < int (length songs) \<and> index songs i = Inr (songs ! nat i))
   \<and> (auto \<or> songs = [] \<or> ends (stdin w) \<longrightarrow> choose_song env songs auto w \<noteq> None)
   \<and> (\<forall>r w'. search_and_play env q lim use_mock auto no_play w = Some (r, w') \<longrightarrow>
         (\<forall>e. r \<noteq> Inl e)
         \<and> (\<forall>s. r = Inr (Some s) \<longrightarrow>
               (\<exists>found w1. run_search env use_mock q lim w = (Inr found, w1) \<and> s \<in> set found)))"
proof (intro conjI allI impI)
  fix i w' assume c: "choose_song env songs auto w = Some (Some i, w')"
  from choose_song_range[OF c] show "0 \<le> i" and "i < int (length songs)"
    and "index songs i = Inr (songs ! nat i)"
    by (simp_all add: index_in_range)
next
  assume "auto \<or> songs = [] \<or> ends (stdin w)"
  then show "choose_song env songs auto w \<noteq> None" by (rule choose_song_returns)
next
  fix r w' e assume "search_and_play env q lim use_mock auto no_play w = Some (r, w')"
  from search_and_play_no_exn[OF this] show "r \<noteq> Inl e" by auto
next
  fix r w' s
  assume "search_and_play env q lim use_mock auto no_play w = Some (r, w')" and "r = Inr (Some s)"
  then have "search_and_play env q lim use_mock auto no_play w = Some (Inr (Some s), w')" by simp
  then show "\<exists>found w1. run_search env use_mock q lim w = (Inr found, w1) \<and> s \<in> set found"
    by (rule search_and_play_member)
qed

theorem selection_in_bounds_witness:
  "choose_song bare_env two_songs False \<lparr>stdin = Line ''2'' EOF, out = []\<rparr>
     = Some (Some 1, \<lparr>stdin = EOF, out =
         [Print (CHR 0x0A # ''Select a song:''), Print ''1. A - X'', Print ''2. B - Y'',
          Prompt ''Enter number (or blank to cancel): '']\<rparr>)
   \<and> (0::int) \<le> 1 \<and> 1 < int (length two_songs)
   \<and> index two_songs 1 = Inr \<lparr>title = ''B'', artist = ''Y'', url = ''u2''\<rparr>
   \<and> ends (stdin \<lparr>stdin = Line ''2'' EOF, out = []\<rparr>)
   \<and> search_and_play bare_env ''abc'' 1 True True True \<lparr>stdin = EOF, out = []\<rparr>
     = Some (Inr (Some mock_one),
             \<lparr>stdin = EOF, out =
               [Print (CHR 0x0A # ''Top Results:''), Print ''1. abc (Mock 1) - Mock Artist 1'',
                Print (selected_line mock_one), Print (url_line mock_one),
                Print ''--no-play enabled, not launching mpv.'']\<rparr>)
   \<and> run_search bare_env True ''abc'' 1 \<lparr>stdin = EOF, out = []\<rparr>
       = (Inr [mock_one], \<lparr>stdin = EOF, out = []\<rparr>)
   \<and> mock_one \<in> set [mock_one]"
proof -
  have e: "ends (stdin \<lparr>stdin = Line ''2'' EOF, out = []\<rparr>)"
    by (simp add: ends.intros)
  have r: "run_search bare_env True ''abc'' 1 \<lparr>stdin = EOF, out = []\<rparr>
       = (Inr [mock_one], \<lparr>stdin = EOF, out = []\<rparr>)"
    by (simp add: run_search_def mock_abc_1 mock_one_def)
  from selection_in_bounds[where env=bare_env and songs=two_songs and auto=False
          and w="\<lparr>stdin = Line ''2'' EOF, out = []\<rparr>"]
       choose_two
  have i: "(0::int) \<le> 1 \<and> 1 < int (length two_songs)
           \<and> index two_songs 1 = Inr \<lparr>title = ''B'', artist = ''Y'', url = ''u2''\<rparr>"
    by (simp add: two_songs_def)
  from selection_in_bounds[where env=bare_env and songs="[mock_one]" and auto=True
          and w="\<lparr>stdin = EOF, out = []\<rparr>" and q="''abc''" and lim=1 and use_mock=True
          and no_play=True]
       session_no_play r
  have m: "mock_one \<in> set [mock_one]" by simp
  from e r i m choose_two session_no_play show ?thesis by simp
qed

subsection \<open>After the selection: playback\<close>

text \<open>
  C6. Suppose the query is not empty, the search found the non-empty list \<open>songs\<close> and
  the Selector chose \<open>idx\<close>. Then \<open>search_and_play\<close> returns \<open>songs ! idx\<close> in every case:
  \<^item> with \<open>no_play\<close> the session only writes three lines (the selection, its URL, the
    notice); the trace has no \<open>Which\<close> and no \<open>Run\<close> event, the player is not invoked;
  \<^item> otherwise, an exception \<open>e\<close> that leaves \<open>play_with_mpv\<close> is caught and reported as
    \<open>Failed to play: \<close> followed by its text; without exception nothing is added;
  \<^item> in particular, when \<^verbatim>\<open>shutil.which("mpv")\<close> finds nothing, the report is
    \<open>Failed to play: mpv not found. Please install it to play songs.\<close> and no process
    is started.
\<close>

theorem selected_is_returned:
  assumes "py_strip env q \<noteq> []"
      and "run_search env use_mock q lim w = (Inr songs, w1)"
      and "songs \<noteq> []"
      and "choose_song env songs auto (print_songs 1 songs (print (CHR 0x0A # ''Top Results:'') w1))
             = Some (Some idx, w2)"
  shows "search_and_play env q lim use_mock auto True w
           = Some (Inr (Some (songs ! nat idx)),
                   w2\<lparr>out := out w2 @ [Print (selected_line (songs ! nat idx)),
                                      Print (url_line (songs ! nat idx)),
                                      Print ''--no-play enabled, not launching mpv.'']\<rparr>)
       \<and> (\<forall>e w4. play_with_mpv env (url (songs ! nat idx)) (report_selected (songs ! nat idx) w2)
                    = (Inl e, w4) \<longrightarrow>
             search_and_play env q lim use_mock auto False w
               = Some (Inr (Some (songs ! nat idx)),
                       w4\<lparr>out := out w4 @ [Print (''Failed to play: '' @ str_exn e)]\<rparr>))
       \<and> (\<forall>w4. play_with_mpv env (url (songs ! nat idx)) (report_selected (songs ! nat idx) w2)
                    = (Inr (), w4) \<longrightarrow>
             search_and_play env q lim use_mock auto False w = Some (Inr (Some (songs ! nat idx)), w4))
       \<and> (\<not> truthy (which env ''mpv'') \<longrightarrow>
             search_and_play env q lim use_mock auto False w
               = Some (Inr (Some (songs ! nat idx)),
                       w2\<lparr>out := out w2 @ [Print (selected_line (songs ! nat idx)),
                                          Print (url_line (songs ! nat idx)),
                                          Which ''mpv'',
                                          Print ''Failed to play: mpv not found. Please install it to play songs.'']\<rparr>))"
  unfolding search_and_play_found[OF assms(1,2,3)] assms(4)
  by (simp add: Let_def report_selected_def print_def emit_def play_with_mpv_def)

theorem selected_is_returned_witness:
  "py_strip bare_env ''abc'' \<noteq> [] \<and> py_strip failing_env ''abc'' \<noteq> []
   \<and> py_strip live_env ''abc'' \<noteq> []
   \<and> run_search bare_env True ''abc'' 1 \<lparr>stdin = EOF, out = []\<rparr>
       = (Inr [mock_one], \<lparr>stdin = EOF, out = []\<rparr>)
   \<and> [mock_one] \<noteq> []
   \<and> choose_song bare_env [mock_one] True
         (print_songs 1 [mock_one] (print (CHR 0x0A # ''Top Results:'') \<lparr>stdin = EOF, out = []\<rparr>))
       = Some (Some 0, \<lparr>stdin = EOF, out = [Print (CHR 0x0A # ''Top Results:''),
                                              Print ''1. abc (Mock 1) - Mock Artist 1'']\<rparr>)
   \<and> search_and_play bare_env ''abc'' 1 True True True \<lparr>stdin = EOF, out = []\<rparr>
       = Some (Inr (Some mock_one),
               \<lparr>stdin = EOF, out =
                 [Print (CHR 0x0A # ''Top Results:''), Print ''1. abc (Mock 1) - Mock Artist 1'',
                  Print (selected_line mock_one), Print (url_line mock_one),
                  Print ''--no-play enabled, not launching mpv.'']\<rparr>)
   \<and> \<not> truthy (which bare_env ''mpv'')
   \<and> search_and_play bare_env ''abc'' 1 True True False \<lparr>stdin = EOF, out = []\<rparr>
       = Some (Inr (Some mock_one),
               \<lparr>stdin = EOF, out =
                 [Print (CHR 0x0A # ''Top Results:''), Print ''1. abc (Mock 1) - Mock Artist 1'',
                  Print (selected_line mock_one), Print (url_line mock_one),
                  Which ''mpv'',
                  Print ''Failed to play: mpv not found. Please install it to play songs.'']\<rparr>)
   \<and> search_and_play failing_env ''abc'' 1 True True False \<lparr>stdin = EOF, out = []\<rparr>
       = Some (Inr (Some mock_one),
               \<lparr>stdin = EOF, out =
                 [Print (CHR 0x0A # ''Top Results:''), Print ''1. abc (Mock 1) - Mock Artist 1'',
                  Print (selected_line mock_one), Print (url_line mock_one),
                  Which ''mpv'',
                  Run [''mpv'', ''--no-video'', ''https://www.youtube.com/watch?v=mock1''],
                  Print ''Failed to play: Permission denied'']\<rparr>)
   \<and> search_and_play live_env ''abc'' 1 True True False \<lparr>stdin = EOF, out = []\<rparr>
       = Some (Inr (Some mock_one),
               \<lparr>stdin = EOF, out =
                 [Print (CHR 0x0A # ''Top Results:''), Print ''1. abc (Mock 1) - Mock Artist 1'',
                  Print (selected_line mock_one), Print (url_line mock_one),
                  Which ''mpv'',
                  Run [''mpv'', ''--no-video'', ''https://www.youtube.com/watch?v=mock1''],
                  Print ''mpv exited with error code 2'']\<rparr>)"
proof -
  let ?w = "\<lparr>stdin = EOF, out = []\<rparr>"
  let ?w2 = "\<lparr>stdin = EOF, out = [Print (CHR 0x0A # ''Top Results:''),
                                    Print ''1. abc (Mock 1) - Mock Artist 1'']\<rparr>"
  have qb: "py_strip bare_env ''abc'' \<noteq> []" and qf: "py_strip failing_env ''abc'' \<noteq> []"
    and ql: "py_strip live_env ''abc'' \<noteq> []"
    by (simp_all add: strip_abc sample_builtins)
  have r: "run_search env True ''abc'' 1 ?w = (Inr [mock_one], ?w)" for env
    by (simp add: run_search_def mock_abc_1 mock_one_def)
  have n: "[mock_one] \<noteq> []" by simp
  have c: "choose_song env [mock_one] True (print_songs 1 [mock_one] (print (CHR 0x0A # ''Top Results:'') ?w))
             = Some (Some 0, ?w2)" for env
    by (simp only: top_results_one) (simp add: choose_song_def)
  have nw: "\<not> truthy (which bare_env ''mpv'')" by (simp add: truthy_def bare_env_def)
  have pf: "play_with_mpv failing_env (url mock_one) (report_selected mock_one ?w2)
              = (Inl (External ''Permission denied''),
                 \<lparr>stdin = EOF, out =
                 [Print (CHR 0x0A # ''Top Results:''), Print ''1. abc (Mock 1) - Mock Artist 1'',
                  Print (selected_line mock_one), Print (url_line mock_one),
                  Which ''mpv'',
                  Run [''mpv'', ''--no-video'', ''https://www.youtube.com/watch?v=mock1'']]\<rparr>)"
    by (simp add: play_with_mpv_def failing_env_def truthy_def report_selected_def print_def emit_def
          mock_one_def)
  have pl: "play_with_mpv live_env (url mock_one) (report_selected mock_one ?w2)
              = (Inr (),
                 \<lparr>stdin = EOF, out =
                 [Print (CHR 0x0A # ''Top Results:''), Print ''1. abc (Mock 1) - Mock Artist 1'',
                  Print (selected_line mock_one), Print (url_line mock_one),
                  Which ''mpv'',
                  Run [''mpv'', ''--no-video'', ''https://www.youtube.com/watch?v=mock1''],
                  Print ''mpv exited with error code 2'']\<rparr>)"
    by (simp add: play_with_mpv_def live_env_def truthy_def report_selected_def print_def emit_def
          mock_one_def str_int_def str_nat.simps digit_char_def)
  from selected_is_returned[OF qb r n c] nw selected_is_returned[OF qf r n c] pf
       selected_is_returned[OF ql r n c] pl qb qf ql r[of bare_env] n c[of bare_env]
  show ?thesis by simp
qed

subsection \<open>The exit status\<close>

text \<open>
  C3. \<open>main\<close> returns 0 and raises nothing:
  \<^item> whenever it returns, it returns 0; and it does return when the selection is
    automatic or the input ends (on an endless input of rejected lines the Selector
    keeps asking);
  \<^item> with a positional query (a non-empty one: \<^verbatim>\<open>if args.query\<close> takes the empty string
    for an absent query) the session runs on it, and \<open>main\<close> ends in the world that the
    session leaves, with status 0 whatever the session returned: failed search, no
    results, no selection, failed playback;
  \<^item> without positional query, at the end of input or on a blank answer to the prompt
    (one that \<^verbatim>\<open>str.strip\<close> leaves empty) \<open>main\<close> returns 0 at once: its only trace is the prompt, so no session runs and no
    search is made.
\<close>

theorem main_exit_status:
  "(\<forall>r w'. main env a w = Some (r, w') \<longrightarrow> r = Inr 0)
   \<and> (arg_auto a \<or> ends (stdin w) \<longrightarrow> (\<exists>w'. main env a w = Some (Inr 0, w')))
   \<and> (\<forall>q. arg_query a = Some q \<and> q \<noteq> [] \<longrightarrow>
         main env a w = map_option (\<lambda>(r, w'). (Inr 0, w'))
            (search_and_play env q (arg_limit a) (arg_mock a) (arg_auto a) (arg_no_play a) w))
   \<and> (\<not> truthy (arg_query a) \<and> stdin w = EOF \<longrightarrow>
         main env a w = Some (Inr 0, w\<lparr>out := out w @ [Prompt ''Search for a song (or blank to quit): '']\<rparr>))
   \<and> (\<forall>l rest. \<not> truthy (arg_query a) \<and> stdin w = Line l rest \<and> py_strip env l = [] \<longrightarrow>
         main env a w = Some (Inr 0, w\<lparr>stdin := rest,
                                       out := out w @ [Prompt ''Search for a song (or blank to quit): '']\<rparr>))"
proof -
  let ?run = "\<lambda>q w'. map_option (\<lambda>(r, w2). (Inr (0::int), w2))
            (search_and_play env q (arg_limit a) (arg_mock a) (arg_auto a) (arg_no_play a) w')"
  let ?p = "''Search for a song (or blank to quit): ''"
  have m: "main env a w =
      (if truthy (arg_query a) then ?run (the (arg_query a)) w
       else (case input ?p w of
               (None, w1) \<Rightarrow> Some (Inr 0, w1)
             | (Some l, w1) \<Rightarrow> if py_strip env l = [] then Some (Inr 0, w1) else ?run (py_strip env l) w1))"
    by (auto simp: main_def Let_def main_session split: prod.splits option.splits)
  have code: "r = Inr 0" if "main env a w = Some (r, w')" for r w'
    using that unfolding m
    by (auto simp: input_def split: if_splits prod.splits option.splits instream.splits)
  have ret: "\<exists>w'. main env a w = Some (Inr 0, w')" if t: "arg_auto a \<or> ends (stdin w)"
  proof -
    have "main env a w \<noteq> None"
    proof (cases "truthy (arg_query a)")
      case True
      then show ?thesis unfolding m using search_and_play_returns[OF t] by simp
    next
      case False
      show ?thesis
      proof (cases "stdin w")
        case EOF
        then show ?thesis unfolding m using False by (simp add: input_def)
      next
        case (Line l rest)
        let ?w1 = "(emit (Prompt ?p) w)\<lparr>stdin := rest\<rparr>"
        have "arg_auto a \<or> ends (stdin ?w1)" using t Line by (auto simp: ends_Line_iff)
        then have "search_and_play env (py_strip env l) (arg_limit a) (arg_mock a) (arg_auto a) (arg_no_play a) ?w1
                     \<noteq> None"
          by (rule search_and_play_returns)
        then show ?thesis
          unfolding m using False Line by (auto simp: input_def)
      qed
    qed
    then obtain r w' where "main env a w = Some (r, w')" by (cases "main env a w") auto
    with code[OF this] show ?thesis by blast
  qed
  have sess: "main env a w = ?run q w" if "arg_query a = Some q" "q \<noteq> []" for q
    unfolding m using that by (simp add: truthy_def)
  have eof: "main env a w = Some (Inr 0, w\<lparr>out := out w @ [Prompt ?p]\<rparr>)"
    if "\<not> truthy (arg_query a)" "stdin w = EOF"
    unfolding m using that by (simp add: input_def emit_def)
  have blank: "main env a w = Some (Inr 0, w\<lparr>stdin := rest, out := out w @ [Prompt ?p]\<rparr>)"
    if "\<not> truthy (arg_query a)" "stdin w = Line l rest" "py_strip env l = []" for l rest
    unfolding m using that by (simp add: input_def emit_def)
  from code ret sess eof blank show ?thesis by blast
qed

theorem main_exit_status_witness:
  "arg_query \<lparr>arg_query = Some ''abc'', arg_mock = True, arg_limit = 1, arg_auto = True,
               arg_no_play = True\<rparr> = Some ''abc''
   \<and> ''abc'' \<noteq> []
   \<and> ends (stdin \<lparr>stdin = EOF, out = []\<rparr>)
   \<and> main bare_env \<lparr>arg_query = Some ''abc'', arg_mock = True, arg_limit = 1, arg_auto = True,
                      arg_no_play = True\<rparr> \<lparr>stdin = EOF, out = []\<rparr>
       = Some (Inr 0,
               \<lparr>stdin = EOF, out =
                 [Print (CHR 0x0A # ''Top Results:''), Print ''1. abc (Mock 1) - Mock Artist 1'',
                  Print (selected_line mock_one), Print (url_line mock_one),
                  Print ''--no-play enabled, not launching mpv.'']\<rparr>)
   \<and> main bare_env \<lparr>arg_query = Some ''abc'', arg_mock = False, arg_limit = 5, arg_auto = False,
                      arg_no_play = False\<rparr> \<lparr>stdin = EOF, out = []\<rparr>
       = Some (Inr 0,
               \<lparr>stdin = EOF, out =
                 [Print ''Error while searching: ytmusicapi not installed. Run: pip install ytmusicapi'']\<rparr>)
   \<and> \<not> truthy None
   \<and> main bare_env \<lparr>arg_query = None, arg_mock = True, arg_limit = 5, arg_auto = False,
                      arg_no_play = False\<rparr> \<lparr>stdin = EOF, out = []\<rparr>
       = Some (Inr 0, \<lparr>stdin = EOF, out = [Prompt ''Search for a song (or blank to quit): '']\<rparr>)
   \<and> \<not> truthy (Some []) \<and> py_strip bare_env '' '' = []
   \<and> main bare_env \<lparr>arg_query = Some [], arg_mock = True, arg_limit = 5, arg_auto = False,
                      arg_no_play = False\<rparr> \<lparr>stdin = Line '' '' (Line ''abc'' EOF), out = []\<rparr>
       = Some (Inr 0, \<lparr>stdin = Line ''abc'' EOF,
                        out = [Prompt ''Search for a song (or blank to quit): '']\<rparr>)
   \<and> py_strip wide_env nbsp = []
   \<and> main wide_env \<lparr>arg_query = None, arg_mock = True, arg_limit = 5, arg_auto = False,
                      arg_no_play = False\<rparr> \<lparr>stdin = Line nbsp (Line ''abc'' EOF), out = []\<rparr>
       = Some (Inr 0, \<lparr>stdin = Line ''abc'' EOF,
                        out = [Prompt ''Search for a song (or blank to quit): '']\<rparr>)"
proof -
  let ?w = "\<lparr>stdin = EOF, out = []\<rparr>"
  have e: "ends (stdin ?w)" by (simp add: ends.intros)
  have t: "\<not> truthy None" "\<not> truthy (Some [])" by (simp_all add: truthy_def)
  have b: "py_strip bare_env '' '' = []" by (simp add: strip_x sample_builtins)
  have wb: "py_strip wide_env nbsp = []" by (simp add: wide_builtins)
  have a1: "main bare_env \<lparr>arg_query = Some ''abc'', arg_mock = True, arg_limit = 1, arg_auto = True,
                      arg_no_play = True\<rparr> ?w
       = Some (Inr 0,
               \<lparr>stdin = EOF, out =
                 [Print (CHR 0x0A # ''Top Results:''), Print ''1. abc (Mock 1) - Mock Artist 1'',
                  Print (selected_line mock_one), Print (url_line mock_one),
                  Print ''--no-play enabled, not launching mpv.'']\<rparr>)"
    using main_exit_status[of bare_env "\<lparr>arg_query = Some ''abc'', arg_mock = True, arg_limit = 1,
            arg_auto = True, arg_no_play = True\<rparr>" ?w,
            THEN conjunct2, THEN conjunct2, THEN conjunct1, rule_format, of "''abc''"]
    by (simp add: session_no_play)
  have f: "search_and_play bare_env ''abc'' 5 False False False ?w
       = Some (Inr None,
               \<lparr>stdin = EOF, out =
                 [Print ''Error while searching: ytmusicapi not installed. Run: pip install ytmusicapi'']\<rparr>)"
    by (simp add: search_and_play_def strip_abc run_search_def search_with_ytmusic_def bare_env_def
          print_def emit_def)
  have a0: "main bare_env \<lparr>arg_query = Some ''abc'', arg_mock = False, arg_limit = 5, arg_auto = False,
                      arg_no_play = False\<rparr> ?w
       = Some (Inr 0,
               \<lparr>stdin = EOF, out =
                 [Print ''Error while searching: ytmusicapi not installed. Run: pip install ytmusicapi'']\<rparr>)"
    using main_exit_status[of bare_env "\<lparr>arg_query = Some ''abc'', arg_mock = False, arg_limit = 5,
            arg_auto = False, arg_no_play = False\<rparr>" ?w,
            THEN conjunct2, THEN conjunct2, THEN conjunct1, rule_format, of "''abc''"]
    by (simp add: f)
  have a2: "main bare_env \<lparr>arg_query = None, arg_mock = True, arg_limit = 5, arg_auto = False,
                      arg_no_play = False\<rparr> ?w
       = Some (Inr 0, \<lparr>stdin = EOF, out = [Prompt ''Search for a song (or blank to quit): '']\<rparr>)"
    using main_exit_status[of bare_env "\<lparr>arg_query = None, arg_mock = True, arg_limit = 5,
            arg_auto = False, arg_no_play = False\<rparr>" ?w,
            THEN conjunct2, THEN conjunct2, THEN conjunct2, THEN conjunct1] t
    by simp
  have a3: "main bare_env \<lparr>arg_query = Some [], arg_mock = True, arg_limit = 5, arg_auto = False,
                      arg_no_play = False\<rparr> \<lparr>stdin = Line '' '' (Line ''abc'' EOF), out = []\<rparr>
       = Some (Inr 0, \<lparr>stdin = Line ''abc'' EOF,
                        out = [Prompt ''Search for a song (or blank to quit): '']\<rparr>)"
    using main_exit_status[of bare_env "\<lparr>arg_query = Some [], arg_mock = True, arg_limit = 5,
            arg_auto = False, arg_no_play = False\<rparr>"
            "\<lparr>stdin = Line '' '' (Line ''abc'' EOF), out = []\<rparr>",
            THEN conjunct2, THEN conjunct2, THEN conjunct2, THEN conjunct2, rule_format,
            of "'' ''" "Line ''abc'' EOF"] t b
    by simp
  have a4: "main wide_env \<lparr>arg_query = None, arg_mock = True, arg_limit = 5, arg_auto = False,
                      arg_no_play = False\<rparr> \<lparr>stdin = Line nbsp (Line ''abc'' EOF), out = []\<rparr>
       = Some (Inr 0, \<lparr>stdin = Line ''abc'' EOF,
                        out = [Prompt ''Search for a song (or blank to quit): '']\<rparr>)"
    using main_exit_status[of wide_env "\<lparr>arg_query = None, arg_mock = True, arg_limit = 5,
            arg_auto = False, arg_no_play = False\<rparr>"
            "\<lparr>stdin = Line nbsp (Line ''abc'' EOF), out = []\<rparr>",
            THEN conjunct2, THEN conjunct2, THEN conjunct2, THEN conjunct2, rule_format,
            of nbsp "Line ''abc'' EOF"] t wb
    by simp
  from e t b wb a0 a1 a2 a3 a4 show ?thesis by simp
qed

subsection \<open>The Deterministic Provider\<close>

lemma str_nat_nonempty: "str_nat n \<noteq> []"
  by (subst str_nat.simps) simp

lemma digit_char_inj: "a < 10 \<Longrightarrow> b < 10 \<Longrightarrow> digit_char a = digit_char b \<Longrightarrow> a = b"
proof -
  assume "a < 10" "b < 10" "digit_char a = digit_char b"
  moreover have "a < 10 \<longleftrightarrow> a \<in> {0,1,2,3,4,5,6,7,8,9}" by auto
  moreover have "b < 10 \<longleftrightarrow> b \<in> {0,1,2,3,4,5,6,7,8,9}" by auto
  ultimately show ?thesis by (auto simp: digit_char_def)
qed

lemma str_nat_inj: "str_nat m = str_nat n \<Longrightarrow> m = n"
proof (induction m arbitrary: n rule: str_nat.induct)
  case (1 m)
  show ?case
  proof (cases "m < 10")
    case m: True
    show ?thesis
    proof (cases "n < 10")
      case True
      with m "1.prems" show ?thesis
        by (simp add: str_nat.simps[of m] str_nat.simps[of n] digit_char_inj)
    next
      case False
      with m "1.prems" str_nat_nonempty[of "n div 10"] show ?thesis
        by (simp add: str_nat.simps[of m] str_nat.simps[of n])
    qed
  next
    case m: False
    show ?thesis
    proof (cases "n < 10")
      case True
      with m "1.prems" str_nat_nonempty[of "m div 10"] show ?thesis
        by (simp add: str_nat.simps[of m] str_nat.simps[of n])
    next
      case False
      with m "1.prems" have "str_nat (m div 10) = str_nat (n div 10)"
        and d: "digit_char (m mod 10) = digit_char (n mod 10)"
        by (simp_all add: str_nat.simps[of m] str_nat.simps[of n])
      with "1.IH"[OF m] have "m div 10 = n div 10" by simp
      moreover from d have "m mod 10 = n mod 10" by (intro digit_char_inj) simp_all
      ultimately show ?thesis by (metis div_mult_mod_eq)
    qed
  qed
qed

lemma mock_urls_distinct: "distinct (map url (search_with_mock q lim))"
proof -
  have "inj_on (\<lambda>i. ''https://www.youtube.com/watch?v=mock'' @ str_int (int i + 1)) (set [0..<nat lim])"
    by (rule inj_onI) (auto simp: str_int_def dest!: str_nat_inj)
  then show ?thesis
    by (simp add: search_with_mock_def distinct_map comp_def)
qed

lemma mock_length: "length (search_with_mock q lim) = nat lim"
  by (simp add: search_with_mock_def)

lemma mock_nth:
  "1 \<le> i \<Longrightarrow> i \<le> lim \<Longrightarrow>
   search_with_mock q lim ! nat (i - 1)
     = \<lparr> title = q @ '' (Mock '' @ str_int i @ '')'',
         artist = ''Mock Artist '' @ str_int i,
         url = ''https://www.youtube.com/watch?v=mock'' @ str_int i \<rparr>"
  by (simp add: search_with_mock_def)

lemma str_int_examples:
  "str_int 1 = ''1''" "str_int 10 = ''10''" "str_int 407 = ''407''" "str_int (- 15) = ''-15''"
  by (simp_all add: str_int_def str_nat.simps digit_char_def)

text \<open>
  C5. For every query \<open>q\<close> and every limit \<open>L\<close> among 1, 3, 5, 7, 10, \<open>search_with_mock q L\<close>
  has exactly \<open>L\<close> elements; the \<open>i\<close>-th of them (\<open>i\<close> from 1 to \<open>L\<close>) has the title
  \<open>q (Mock i)\<close>, the artist \<open>Mock Artist i\<close> and the URL template with \<open>i\<close> at its end, \<open>i\<close>
  in decimal; and the \<open>L\<close> URLs are pairwise distinct.
\<close>

theorem search_with_mock_descriptors:
  "lim \<in> {1, 3, 5, 7, 10} \<Longrightarrow>
   int (length (search_with_mock q lim)) = lim
   \<and> (\<forall>i. 1 \<le> i \<and> i \<le> lim \<longrightarrow>
         search_with_mock q lim ! nat (i - 1)
           = \<lparr> title = q @ '' (Mock '' @ str_int i @ '')'',
               artist = ''Mock Artist '' @ str_int i,
               url = ''https://www.youtube.com/watch?v=mock'' @ str_int i \<rparr>)
   \<and> distinct (map url (search_with_mock q lim))"
proof (intro conjI allI impI)
  assume "lim \<in> {1, 3, 5, 7, 10}"
  then have "0 \<le> lim" by auto
  then show "int (length (search_with_mock q lim)) = lim" by (simp add: mock_length)
next
  fix i assume "1 \<le> i \<and> i \<le> lim"
  then show "search_with_mock q lim ! nat (i - 1)
           = \<lparr> title = q @ '' (Mock '' @ str_int i @ '')'',
               artist = ''Mock Artist '' @ str_int i,
               url = ''https://www.youtube.com/watch?v=mock'' @ str_int i \<rparr>"
    by (simp add: mock_nth)
next
  show "distinct (map url (search_with_mock q lim))" by (rule mock_urls_distinct)
qed

theorem search_with_mock_descriptors_witness:
  "(3::int) \<in> {1, 3, 5, 7, 10}
   \<and> int (length (search_with_mock ''test'' 3)) = 3
   \<and> search_with_mock ''test'' 3 ! 0
       = \<lparr> title = ''test (Mock 1)'', artist = ''Mock Artist 1'',
           url = ''https://www.youtube.com/watch?v=mock1'' \<rparr>
   \<and> search_with_mock ''test'' 3 ! 1
       = \<lparr> title = ''test (Mock 2)'', artist = ''Mock Artist 2'',
           url = ''https://www.youtube.com/watch?v=mock2'' \<rparr>
   \<and> search_with_mock ''test'' 3 ! 2
       = \<lparr> title = ''test (Mock 3)'', artist = ''Mock Artist 3'',
           url = ''https://www.youtube.com/watch?v=mock3'' \<rparr>
   \<and> distinct (map url (search_with_mock ''test'' 3))"
proof -
  have m: "(3::int) \<in> {1, 3, 5, 7, 10}" by simp
  have s: "str_int 1 = ''1''" "str_int 2 = ''2''" "str_int 3 = ''3''"
    by (simp_all add: str_int_def str_nat.simps digit_char_def)
  note t = search_with_mock_descriptors[OF m, of "''test''"]
  from t have l: "int (length (search_with_mock ''test'' 3)) = 3" by blast
  from t have d: "distinct (map url (search_with_mock ''test'' 3))" by blast
  from t have n: "1 \<le> i \<and> i \<le> 3 \<longrightarrow> search_with_mock ''test'' 3 ! nat (i - 1)
           = \<lparr> title = ''test'' @ '' (Mock '' @ str_int i @ '')'',
               artist = ''Mock Artist '' @ str_int i,
               url = ''https://www.youtube.com/watch?v=mock'' @ str_int i \<rparr>" for i
    by blast
  from n[of 1] n[of 2] n[of 3] m l d show ?thesis by (simp add: s)
qed

subsection \<open>The Live Provider\<close>

text \<open>On items whose \<^verbatim>\<open>"artists"\<close> value can be tested and subscripted, the loop with its
  \<^verbatim>\<open>continue\<close> and \<^verbatim>\<open>append\<close> is a filter followed by a map.\<close>

lemma artist_of_subscriptable:
  "subscriptable a \<Longrightarrow>
   artist_of a = Inr (case first_artist_name a of None \<Rightarrow> ''Unknown Artist'' | Some n \<Rightarrow> n)"
  by (cases a rule: artist_of.cases) (auto simp: truthy_def split: option.splits)

lemma collect_eq:
  "list_all (\<lambda>it. subscriptable (item_artists it)) its \<Longrightarrow>
   collect its acc = Inr (acc @ map descriptor (filter has_id its))"
proof (induction its arbitrary: acc)
  case Nil
  then show ?case by simp
next
  case (Cons it its)
  have t: "or_else (item_title it) ''Unknown Title''
             = (case item_title it of None \<Rightarrow> ''Unknown Title''
                | Some t \<Rightarrow> if t = [] then ''Unknown Title'' else t)"
    by (simp add: or_else_def truthy_def split: option.splits)
  have a: "artist_of (item_artists it)
             = Inr (case first_artist_name (item_artists it) of
                      None \<Rightarrow> ''Unknown Artist'' | Some n \<Rightarrow> n)"
    using Cons.prems by (simp add: artist_of_subscriptable)
  have v: "truthy (item_videoId it) = has_id it"
    by (simp add: truthy_def has_id_def)
  from Cons.prems have rest: "list_all (\<lambda>it. subscriptable (item_artists it)) its" by simp
  show ?case
    by (simp add: Let_def Cons.IH[OF rest] t a v descriptor_def)
qed

text \<open>On the first item whose \<^verbatim>\<open>"artists"\<close> value cannot be subscripted the loop raises,
  whether or not the item has an identifier.\<close>

lemma collect_raises:
  "\<not> list_all (\<lambda>it. subscriptable (item_artists it)) its \<Longrightarrow> \<exists>e. collect its acc = Inl e"
proof (induction its arbitrary: acc)
  case Nil
  then show ?case by simp
next
  case (Cons it its)
  show ?case
  proof (cases "subscriptable (item_artists it)")
    case True
    with Cons.prems have "\<not> list_all (\<lambda>it. subscriptable (item_artists it)) its" by simp
    from Cons.IH[OF this] True show ?thesis
      by (auto simp: Let_def artist_of_subscriptable)
  next
    case False
    then obtain e where "artist_of (item_artists it) = Inl e"
      by (cases "item_artists it" rule: artist_of.cases) auto
    then show ?thesis by (simp add: Let_def)
  qed
qed

text \<open>
  C2, as the claim states it, fails where the value under \<^verbatim>\<open>"artists"\<close> is malformed in
  that it is no list: on a dict the subscript \<^verbatim>\<open>artists[0]\<close> raises \<^verbatim>\<open>KeyError\<close>, the
  provider returns no descriptor at all, and the placeholder is never used.
\<close>

theorem live_provider_dict_artists_counterexample:
  "search_with_ytmusic solo_env ''solo'' 5 \<lparr>stdin = EOF, out = []\<rparr>
     = (Inl (KeyError ''0''), \<lparr>stdin = EOF, out = [YTMusicNew, YTMusicSearch ''solo'']\<rparr>)"
  by (simp add: search_with_ytmusic_def solo_env_def solo_item_def slice_to_def emit_def)

text \<open>
  C2, amended. Let the catalog be present and answer the query with \<open>items\<close>, let the
  limit be positive, and let the \<^verbatim>\<open>"artists"\<close> value of each of the first \<open>limit\<close> items be
  one that the source can test and subscript: nothing, a list, a string, or a falsy
  value. Then \<open>search_with_ytmusic\<close> constructs the client, asks the catalog once and
  returns, in the catalog's order, the \<open>descriptor\<close> of each of the first \<open>limit\<close> items
  that has an identifier: the title or the placeholder when it is absent or empty; the
  name of the first listed artist, or the placeholder when the list is absent or empty,
  or its first entry is not a dict or has no name; the identifier in the URL template.
  An item without identifier is left out and nothing takes its place: the answer is cut
  to \<open>limit\<close> items before such items are dropped, so the result has at most \<open>limit\<close>
  elements and can have fewer.
\<close>

theorem live_provider_descriptors:
  assumes "YTMusic env = Some y" and "construct y = None" and "search y q = Inr (Some items)"
      and "0 < lim"
      and "list_all (\<lambda>it. subscriptable (item_artists it)) (take (nat lim) items)"
  shows "search_with_ytmusic env q lim w
           = (Inr (map descriptor (filter has_id (take (nat lim) items))),
              w\<lparr>out := out w @ [YTMusicNew, YTMusicSearch q]\<rparr>)
       \<and> length (map descriptor (filter has_id (take (nat lim) items))) \<le> nat lim"
proof
  show "search_with_ytmusic env q lim w
           = (Inr (map descriptor (filter has_id (take (nat lim) items))),
              w\<lparr>out := out w @ [YTMusicNew, YTMusicSearch q]\<rparr>)"
    using assms by (simp add: search_with_ytmusic_def slice_to_def collect_eq emit_def)
  have "length (filter has_id (take (nat lim) items)) \<le> length (take (nat lim) items)"
    by (rule length_filter_le)
  then show "length (map descriptor (filter has_id (take (nat lim) items))) \<le> nat lim"
    by simp
qed

theorem live_provider_descriptors_witness:
  "YTMusic live_env = Some \<lparr>construct = None, search = (\<lambda>_. Inr (Some sample_items))\<rparr>
   \<and> construct \<lparr>construct = None, search = (\<lambda>_. Inr (Some sample_items))\<rparr> = None
   \<and> search \<lparr>construct = None, search = (\<lambda>_. Inr (Some sample_items))\<rparr> ''faded''
       = Inr (Some sample_items)
   \<and> (0::int) < 2
   \<and> list_all (\<lambda>it. subscriptable (item_artists it)) (take (nat 2) sample_items)
   \<and> search_with_ytmusic live_env ''faded'' 2 \<lparr>stdin = EOF, out = []\<rparr>
       = (Inr [\<lparr>title = ''Faded'', artist = ''Alan Walker'',
                url = ''https://www.youtube.com/watch?v=60ItHLz5WEA''\<rparr>],
          \<lparr>stdin = EOF, out = [YTMusicNew, YTMusicSearch ''faded'']\<rparr>)
   \<and> list_all (\<lambda>it. subscriptable (item_artists it)) (take (nat 4) sample_items)
   \<and> search_with_ytmusic live_env ''faded'' 4 \<lparr>stdin = EOF, out = []\<rparr>
       = (Inr [\<lparr>title = ''Faded'', artist = ''Alan Walker'',
                url = ''https://www.youtube.com/watch?v=60ItHLz5WEA''\<rparr>,
               \<lparr>title = ''Unknown Title'', artist = ''Unknown Artist'',
                url = ''https://www.youtube.com/watch?v=abc''\<rparr>,
               \<lparr>title = ''Echo'', artist = ''Unknown Artist'',
                url = ''https://www.youtube.com/watch?v=e4''\<rparr>],
          \<lparr>stdin = EOF, out = [YTMusicNew, YTMusicSearch ''faded'']\<rparr>)"
proof -
  let ?y = "\<lparr>construct = None, search = (\<lambda>_. Inr (Some sample_items))\<rparr>"
  have y: "YTMusic live_env = Some ?y" by (simp add: live_env_def)
  have c: "construct ?y = None" by simp
  have r: "search ?y ''faded'' = Inr (Some sample_items)" by simp
  have two: "take (nat 2) sample_items = [sample_items ! 0, sample_items ! 1]"
    and four: "take (nat 4) sample_items = sample_items"
    by (simp_all add: sample_items_def)
  have s2: "list_all (\<lambda>it. subscriptable (item_artists it)) (take (nat 2) sample_items)"
    by (simp add: two) (simp add: sample_items_def)
  have s4: "list_all (\<lambda>it. subscriptable (item_artists it)) (take (nat 4) sample_items)"
    by (simp add: four) (simp add: sample_items_def)
  have a: "search_with_ytmusic live_env ''faded'' 2 \<lparr>stdin = EOF, out = []\<rparr>
       = (Inr [\<lparr>title = ''Faded'', artist = ''Alan Walker'',
                url = ''https://www.youtube.com/watch?v=60ItHLz5WEA''\<rparr>],
          \<lparr>stdin = EOF, out = [YTMusicNew, YTMusicSearch ''faded'']\<rparr>)"
    using live_provider_descriptors[OF y c r _ s2, of "\<lparr>stdin = EOF, out = []\<rparr>"]
    by (simp add: two) (simp add: sample_items_def has_id_def descriptor_def)
  have b: "search_with_ytmusic live_env ''faded'' 4 \<lparr>stdin = EOF, out = []\<rparr>
       = (Inr [\<lparr>title = ''Faded'', artist = ''Alan Walker'',
                url = ''https://www.youtube.com/watch?v=60ItHLz5WEA''\<rparr>,
               \<lparr>title = ''Unknown Title'', artist = ''Unknown Artist'',
                url = ''https://www.youtube.com/watch?v=abc''\<rparr>,
               \<lparr>title = ''Echo'', artist = ''Unknown Artist'',
                url = ''https://www.youtube.com/watch?v=e4''\<rparr>],
          \<lparr>stdin = EOF, out = [YTMusicNew, YTMusicSearch ''faded'']\<rparr>)"
    using live_provider_descriptors[OF y c r _ s4, of "\<lparr>stdin = EOF, out = []\<rparr>"]
    by (simp add: four) (simp add: sample_items_def has_id_def descriptor_def)
  from y c r s2 s4 a b show ?thesis by simp
qed

end
